theory Spec2Isabelle
  imports Complex_Main "HOL-Library.Sublist" "HOL-Library.AList"
begin

section \<open>Python values and exceptions\<close>

text \<open>
  The programs are Python 2 scripts on top of numpy.  Numbers are modelled in exact
  arithmetic as \<open>real\<close>; an exception is a value \<open>Inl e\<close> of a sum type, a normal
  return is \<open>Inr v\<close>.
\<close>

datatype error =
  IndexError | ValueError | KeyError | NameError | TypeError | ZeroDivisionError | IOError | OSError

text \<open>\<open>s.split(sep)\<close> for a non-empty separator: non-overlapping matches, left to right.
  Python raises \<open>ValueError\<close> on the empty separator.\<close>

function split_at :: "string \<Rightarrow> string \<Rightarrow> string \<Rightarrow> string list" where
  "split_at sep acc [] = [rev acc]"
| "split_at sep acc (c # cs) =
     (if sep \<noteq> [] \<and> prefix sep (c # cs)
      then rev acc # split_at sep [] (drop (length sep) (c # cs))
      else split_at sep (c # acc) cs)"
  by pat_completeness auto
termination
  by (relation "measure (\<lambda>(sep, acc, s). length s)") (auto simp: neq_Nil_conv)

definition split :: "string \<Rightarrow> string \<Rightarrow> error + string list" where
  "split s sep = (if sep = [] then Inl ValueError else Inr (split_at sep [] s))"

text \<open>\<open>xs[i]\<close> for a non-negative index.\<close>

definition item :: "'a list \<Rightarrow> nat \<Rightarrow> error + 'a" where
  "item xs i = (if i < length xs then Inr (xs ! i) else Inl IndexError)"

definition startswith :: "string \<Rightarrow> string \<Rightarrow> bool" where
  "startswith s p = prefix p s"

section \<open>runmoog.py\<close>

text \<open>
  \<open>filter(None, line.split(key)[1].split(' '))[0]\<close> followed by \<open>float\<close>.  The builtin
  \<open>float\<close> is a parameter \<open>pyfloat\<close>; \<open>None\<close> stands for its \<open>ValueError\<close>.
\<close>

definition field_after :: "(string \<Rightarrow> real option) \<Rightarrow> string \<Rightarrow> string \<Rightarrow> error + real" where
  "field_after pyfloat key line =
     (case item (split_at key [] line) 1 of
        Inl e \<Rightarrow> Inl e
      | Inr rest \<Rightarrow>
          (case item (filter (\<lambda>w. w \<noteq> []) (split_at '' '' [] rest)) 0 of
             Inl e \<Rightarrow> Inl e
           | Inr w \<Rightarrow> (case pyfloat w of None \<Rightarrow> Inl ValueError | Some v \<Rightarrow> Inr v)))"

text \<open>\<open>_read_moog\<close>: one pass over the lines of the report, three accumulators.\<close>

fun read_moog_loop ::
  "(string \<Rightarrow> real option) \<Rightarrow> string list \<Rightarrow> real list \<times> real list \<times> real list
     \<Rightarrow> error + (real list \<times> real list \<times> real list)" where
  "read_moog_loop pyfloat [] acc = Inr acc"
| "read_moog_loop pyfloat (line # lines) (EP_slopes, RW_slopes, abundances) =
     (if startswith line ''E.P'' then
        (case field_after pyfloat ''slope ='' line of
           Inl e \<Rightarrow> Inl e
         | Inr v \<Rightarrow> read_moog_loop pyfloat lines (EP_slopes @ [v], RW_slopes, abundances))
      else if startswith line ''R.W'' then
        (case field_after pyfloat ''slope ='' line of
           Inl e \<Rightarrow> Inl e
         | Inr v \<Rightarrow> read_moog_loop pyfloat lines (EP_slopes, RW_slopes @ [v], abundances))
      else if startswith line ''average abundance'' then
        (case field_after pyfloat ''abundance ='' line of
           Inl e \<Rightarrow> Inl e
         | Inr v \<Rightarrow> read_moog_loop pyfloat lines (EP_slopes, RW_slopes, abundances @ [v]))
      else read_moog_loop pyfloat lines (EP_slopes, RW_slopes, abundances))"

definition read_moog ::
  "(string \<Rightarrow> real option) \<Rightarrow> string list \<Rightarrow> error + (real list \<times> real list \<times> real list)" where
  "read_moog pyfloat lines = read_moog_loop pyfloat lines ([], [], [])"

text \<open>
  The tail of \<open>fun_moog\<close> after \<open>_read_moog\<close>.  \<open>np.diff\<close> of a two-element list is the
  one-element array \<open>[a1 - a0]\<close>, modelled by its element.  Falling off the end of the
  function returns \<open>None\<close>.
\<close>

definition fun_moog_res :: "real list \<Rightarrow> real list \<Rightarrow> real list \<Rightarrow> bool \<Rightarrow> error + real option" where
  "fun_moog_res EPs RWs abundances fix_logg =
     (if length abundances = 2 then
        (case item EPs 0 of
           Inl e \<Rightarrow> Inl e
         | Inr ep \<Rightarrow>
            (case item RWs 0 of
               Inl e \<Rightarrow> Inl e
             | Inr rw \<Rightarrow>
                 if fix_logg
                 then Inr (Some (5 * (((3.5 * ep)\<^sup>2 + (1.3 * rw)\<^sup>2)\<^sup>2)))
                 else Inr (Some (5 * ((3.5 * ep)\<^sup>2 + (1.3 * rw)\<^sup>2
                                       + (abundances ! 1 - abundances ! 0))\<^sup>2))))
      else Inr None)"

text \<open>
  \<open>fun_moog\<close>.  Building the atmosphere model and running the external engine
  (\<open>_get_model\<close>, \<open>interpolator\<close>, \<open>save_model\<close>, \<open>_run_moog\<close>) is the parameter
  \<open>engine\<close>: from the parameter tuple to the lines of \<open>summary.out\<close>, or an exception.
\<close>

definition fun_moog ::
  "(string \<Rightarrow> real option) \<Rightarrow> (real \<times> real \<times> real \<times> real \<Rightarrow> error + string list)
     \<Rightarrow> real \<times> real \<times> real \<times> real \<Rightarrow> bool \<Rightarrow> error + real option" where
  "fun_moog pyfloat engine x fix_logg =
     (case x of (teff, logg, feh, vt) \<Rightarrow>
        (case engine (teff * 10, logg, feh, vt) of
           Inl e \<Rightarrow> Inl e
         | Inr report \<Rightarrow>
             (case read_moog pyfloat report of
                Inl e \<Rightarrow> Inl e
              | Inr (EPs, RWs, abundances) \<Rightarrow> fun_moog_res EPs RWs abundances fix_logg)))"

subsection \<open>A decimal reader, used to run the parser on concrete reports\<close>

text \<open>
  The fragment of \<open>float\<close> that the engine's reports need: an optional minus sign,
  digits, an optional point and digits.
\<close>

definition digit_of :: "char \<Rightarrow> nat option" where
  "digit_of c = (let n = (of_char c :: nat) in if 48 \<le> n \<and> n \<le> 57 then Some (n - 48) else None)"

fun digits_of :: "nat \<Rightarrow> string \<Rightarrow> nat option" where
  "digits_of acc [] = Some acc"
| "digits_of acc (c # cs) =
     (case digit_of c of None \<Rightarrow> None | Some d \<Rightarrow> digits_of (10 * acc + d) cs)"

definition unsigned_decimal :: "string \<Rightarrow> real option" where
  "unsigned_decimal s =
     (let ip = takeWhile (\<lambda>c. c \<noteq> CHR ''.'') s;
          fp = drop 1 (dropWhile (\<lambda>c. c \<noteq> CHR ''.'') s)
      in if ip = [] \<and> fp = [] then None
         else (case (digits_of 0 ip, digits_of 0 fp) of
                 (Some i, Some f) \<Rightarrow> Some (real i + real f / 10 ^ length fp)
               | _ \<Rightarrow> None))"

definition decimal_float :: "string \<Rightarrow> real option" where
  "decimal_float s =
     (case s of
        c # cs \<Rightarrow> if c = CHR ''-'' then map_option uminus (unsigned_decimal cs)
                  else unsigned_decimal s
      | [] \<Rightarrow> None)"

definition one_stage_report :: "string list" where
  "one_stage_report =
     [''Abundance Results for Species Fe I'',
      ''average abundance =   7.47   std. deviation =  0.10'',
      ''E.P. correlation:  slope =   0.002  intercept =   7.45'',
      ''R.W. correlation:  slope =  -0.010  intercept =   7.40'']"

definition two_stage_report :: "string list" where
  "two_stage_report =
     one_stage_report @
     [''Abundance Results for Species Fe II'',
      ''average abundance =   7.50   std. deviation =  0.08'']"

subsection \<open>The result of \<open>fun_moog\<close>\<close>

lemma prefix_heads_agree: "prefix (a # as) l \<Longrightarrow> prefix (b # bs) l \<Longrightarrow> a = b"
  by (auto simp: prefix_def)

lemma report_tags_disjoint:
  "startswith l ''average abundance'' \<Longrightarrow> \<not> startswith l ''E.P'' \<and> \<not> startswith l ''R.W''"
  unfolding startswith_def by (auto dest: prefix_heads_agree)

lemma read_moog_loop_length:
  "read_moog_loop pyfloat lines (e, r, a) = Inr (EPs, RWs, abundances) \<Longrightarrow>
   length abundances = length a + length (filter (\<lambda>l. startswith l ''average abundance'') lines)"
proof (induction lines arbitrary: e r a)
  case Nil
  then show ?case by simp
next
  case (Cons l ls)
  then show ?case
    using report_tags_disjoint [of l]
    by (auto split: if_splits sum.splits)
qed

lemma read_moog_length:
  "read_moog pyfloat lines = Inr (EPs, RWs, abundances) \<Longrightarrow>
   length abundances = length (filter (\<lambda>l. startswith l ''average abundance'') lines)"
  unfolding read_moog_def by (drule read_moog_loop_length) simp

lemma read_one_stage_report:
  "read_moog decimal_float one_stage_report = Inr ([0.002], [-0.010], [7.47])"
  by (simp add: read_moog_def one_stage_report_def startswith_def field_after_def item_def
      decimal_float_def unsigned_decimal_def digit_of_def)

lemma read_two_stage_report:
  "read_moog decimal_float two_stage_report = Inr ([0.002], [-0.010], [7.47, 7.50])"
  by (simp add: read_moog_def two_stage_report_def one_stage_report_def startswith_def
      field_after_def item_def decimal_float_def unsigned_decimal_def digit_of_def)

text \<open>
  Claim C10.  Once the engine has run and its report has been parsed, \<open>fun_moog\<close>
  returns \<open>None\<close> exactly when the report does not hold two average-abundance entries
  (and then it raises nothing), it returns a value only for exactly two entries, and
  the number of entries is the number of report lines that start with
  \<open>average abundance\<close>.  The result is an optional value for the caller.
\<close>

theorem fun_moog_value_only_for_two_abundances:
  assumes "engine (teff * 10, logg, feh, vt) = Inr report"
    and "read_moog pyfloat report = Inr (EPs, RWs, abundances)"
  shows "(fun_moog pyfloat engine (teff, logg, feh, vt) fix_logg = Inr None
            \<longleftrightarrow> length abundances \<noteq> 2)
       \<and> ((\<exists>v. fun_moog pyfloat engine (teff, logg, feh, vt) fix_logg = Inr (Some v))
            \<longrightarrow> length abundances = 2)
       \<and> length abundances = length (filter (\<lambda>l. startswith l ''average abundance'') report)"
  using assms read_moog_length [OF assms(2)]
  by (auto simp: fun_moog_def fun_moog_res_def item_def split: sum.splits if_splits)

theorem fun_moog_value_only_for_two_abundances_witness:
  "fun_moog decimal_float (\<lambda>x. Inr one_stage_report) (577.7, 4.44, 0, 1) False = Inr None
   \<and> length (filter (\<lambda>l. startswith l ''average abundance'') one_stage_report) = 1
   \<and> (\<exists>v. fun_moog decimal_float (\<lambda>x. Inr two_stage_report) (577.7, 4.44, 0, 1) False
            = Inr (Some v))
   \<and> length (filter (\<lambda>l. startswith l ''average abundance'') two_stage_report) = 2"
proof -
  have one: "fun_moog decimal_float (\<lambda>x. Inr one_stage_report) (577.7, 4.44, 0, 1) False = Inr None"
    and n1: "length (filter (\<lambda>l. startswith l ''average abundance'') one_stage_report) = 1"
    using fun_moog_value_only_for_two_abundances
      [of "\<lambda>x. Inr one_stage_report" "577.7" "4.44" 0 1 one_stage_report decimal_float
          "[0.002]" "[-0.010]" "[7.47]" False]
      read_one_stage_report
    by simp_all
  have n2: "length (filter (\<lambda>l. startswith l ''average abundance'') two_stage_report) = 2"
    using fun_moog_value_only_for_two_abundances
      [of "\<lambda>x. Inr two_stage_report" "577.7" "4.44" 0 1 two_stage_report decimal_float
          "[0.002]" "[-0.010]" "[7.47, 7.50]" False]
      read_two_stage_report
    by simp
  have two: "\<exists>v. fun_moog decimal_float (\<lambda>x. Inr two_stage_report) (577.7, 4.44, 0, 1) False
            = Inr (Some v)"
    by (simp add: fun_moog_def read_two_stage_report fun_moog_res_def item_def)
  show ?thesis using one n1 two n2 by blast
qed

section \<open>ewDriver.py: outlier detection\<close>

text \<open>
  \<open>Readmoog(...).fe_statistics()\<close> is outside these files.  Its last two entries, the
  tables of the Fe I and the Fe II lines, are the input here: a table is a list of rows,
  column \<open>0\<close> the wavelength and column \<open>5 + idx\<close> the abundance of the line.
\<close>

type_synonym table = "real list list"

text \<open>\<open>t[:, j]\<close>; an index beyond the row is numpy's \<open>IndexError\<close>.\<close>

definition column :: "table \<Rightarrow> nat \<Rightarrow> error + real list" where
  "column t j =
     (if list_all (\<lambda>r. j < length r) t then Inr (map (\<lambda>r. r ! j) t) else Inl IndexError)"

text \<open>\<open>np.mean\<close> and \<open>np.std\<close> (the population standard deviation).\<close>

definition mean :: "real list \<Rightarrow> real" where
  "mean xs = sum_list xs / real (length xs)"

definition std :: "real list \<Rightarrow> real" where
  "std xs = sqrt (mean (map (\<lambda>x. \<bar>x - mean xs\<bar>\<^sup>2) xs))"

text \<open>
  The dictionary \<open>d\<close> of \<open>hasOutlier\<close>, from deviation to wavelength, is an association
  list with one entry per key: \<open>d[dev] = w\<close> is \<open>AList.update dev w d\<close>, which overwrites
  the entry of a key that is already there.  The function returns \<open>d\<close>, or \<open>False\<close> when
  \<open>d\<close> is empty; both are false in the tests of the callers (\<open>if outliers\<close>,
  \<open>while outliers\<close>), and the empty list stands for both.
\<close>

type_synonym outliers = "(real \<times> real) list"

text \<open>One of the two \<open>for\<close> loops: the lines are pairs of wavelength and abundance.\<close>

fun flag_lines :: "real \<Rightarrow> real \<Rightarrow> (real \<times> real) list \<Rightarrow> outliers \<Rightarrow> outliers" where
  "flag_lines m s [] d = d"
| "flag_lines m s ((w, a) # rest) d =
     flag_lines m s rest (if \<bar>a - m\<bar> \<ge> s then AList.update \<bar>a - m\<bar> w d else d)"

definition hasOutlier :: "table \<times> table \<Rightarrow> int \<Rightarrow> real \<Rightarrow> error + outliers" where
  "hasOutlier stats MOOGv n =
     (let idx = (if MOOGv > 2013 then 1 else 0 :: nat);
          fe1 = fst stats; fe2 = snd stats
      in case column fe1 (5 + idx) of Inl e \<Rightarrow> Inl e | Inr a1 \<Rightarrow>
         case column fe2 (5 + idx) of Inl e \<Rightarrow> Inl e | Inr a2 \<Rightarrow>
         let m1 = mean a1; m2 = mean a2;
             s1 = n * std a1; s2 = n * std a2
         in case column fe1 0 of Inl e \<Rightarrow> Inl e | Inr w1 \<Rightarrow>
            let d = flag_lines m1 s1 (zip w1 a1) []
            in if length fe2 > 10
               then (case column fe2 0 of Inl e \<Rightarrow> Inl e
                     | Inr w2 \<Rightarrow> Inr (flag_lines m2 s2 (zip w2 a2) d))
               else Inr d)"

text \<open>
  The detection rule in the words of the specification: the deviation of a line from the
  mean abundance of its stage, and the pairs of deviation and wavelength of the lines of a
  stage whose deviation is at least \<open>n\<close> standard deviations.
\<close>

definition deviation :: "table \<Rightarrow> nat \<Rightarrow> real list \<Rightarrow> real" where
  "deviation t c r = \<bar>r ! c - mean (map (\<lambda>r. r ! c) t)\<bar>"

definition flagged :: "real \<Rightarrow> table \<Rightarrow> nat \<Rightarrow> (real \<times> real) set" where
  "flagged n t c =
     {(deviation t c r, r ! 0) | r. r \<in> set t \<and> deviation t c r \<ge> n * std (map (\<lambda>r. r ! c) t)}"

text \<open>A row of the statistics table of MOOG 2014.\<close>

definition fe_row :: "real \<Rightarrow> real \<Rightarrow> real list" where
  "fe_row w a = [w, 26, 0, 0, 0, 0, a, 0]"

definition stage_of :: "(real \<times> real) list \<Rightarrow> table" where
  "stage_of ps = map (\<lambda>(w, a). fe_row w a) ps"

text \<open>
  Four stages.  In \<open>fe1_stage\<close>, of 26 lines, the line at 6000.1 is five standard
  deviations above the mean (mean 7.41, standard deviation 0.05) and every other line a
  fifth of a standard deviation below it.  In \<open>fe2_long\<close>, of 26 lines, the line at 4923.9
  is five standard deviations above the mean (mean 7.47, standard deviation 0.1).  In
  \<open>fe2_short\<close>, of ten lines, the line at 4923.9 is three standard deviations above the
  mean (mean 7.50, standard deviation 0.15).  In \<open>fe1_even\<close> every line is one standard
  deviation from the mean (mean 7.45, standard deviation 0.05).
\<close>

definition fe1_stage :: "(real \<times> real) list" where
  "fe1_stage =
     [(6000.1, 7.66), (5001.1, 7.40), (5102.2, 7.40), (5203.3, 7.40), (5304.4, 7.40),
      (5405.5, 7.40), (5506.6, 7.40), (5607.7, 7.40), (5708.8, 7.40), (5809.9, 7.40),
      (5910.1, 7.40), (6011.2, 7.40), (6112.3, 7.40), (6213.4, 7.40), (6314.5, 7.40),
      (6415.6, 7.40), (6516.7, 7.40), (6617.8, 7.40), (6718.9, 7.40), (6819.1, 7.40),
      (6920.2, 7.40), (7021.3, 7.40), (7122.4, 7.40), (7223.5, 7.40), (7324.6, 7.40),
      (7425.7, 7.40)]"

definition fe2_long :: "(real \<times> real) list" where
  "fe2_long =
     [(4500.1, 7.45), (4537.2, 7.45), (4574.3, 7.45), (4611.4, 7.45), (4648.5, 7.45),
      (4685.6, 7.45), (4722.7, 7.45), (4759.8, 7.45), (4796.9, 7.45), (4833.1, 7.45),
      (4870.2, 7.45), (4907.3, 7.45), (4923.9, 7.97), (4944.4, 7.45), (4981.5, 7.45),
      (5018.6, 7.45), (5055.7, 7.45), (5092.8, 7.45), (5129.9, 7.45), (5166.1, 7.45),
      (5203.2, 7.45), (5240.3, 7.45), (5277.4, 7.45), (5314.5, 7.45), (5351.6, 7.45),
      (5388.7, 7.45)]"

definition fe2_short :: "(real \<times> real) list" where
  "fe2_short =
     [(4500.1, 7.45), (4537.2, 7.45), (4574.3, 7.45), (4611.4, 7.45), (4648.5, 7.45),
      (4685.6, 7.45), (4722.7, 7.45), (4759.8, 7.45), (4796.9, 7.45), (4923.9, 7.95)]"

definition fe1_even :: "(real \<times> real) list" where
  "fe1_even = [(5001.1, 7.40), (5102.2, 7.50), (5203.3, 7.40), (5304.4, 7.50)]"

subsection \<open>The loop\<close>

lemma flag_lines_keys:
  "fst ` set (flag_lines m s ls d) = fst ` set d \<union> {\<bar>a - m\<bar> | w a. (w, a) \<in> set ls \<and> \<bar>a - m\<bar> \<ge> s}"
proof (induction ls arbitrary: d)
  case Nil
  then show ?case by simp
next
  case (Cons p ls)
  obtain w a where p: "p = (w, a)" by (cases p)
  show ?case unfolding p
    by (auto simp: Cons.IH Let_def AList.dom_update)
qed

lemma flag_lines_distinct:
  "distinct (map fst d) \<Longrightarrow> distinct (map fst (flag_lines m s ls d))"
proof (induction ls arbitrary: d)
  case Nil
  then show ?case by simp
next
  case (Cons p ls)
  obtain w a where p: "p = (w, a)" by (cases p)
  show ?case unfolding p using Cons.prems
    by (auto simp: Let_def AList.distinct_update intro!: Cons.IH)
qed

lemma in_set_update:
  "(k', v') \<in> set (AList.update k v al) \<Longrightarrow> (k', v') = (k, v) \<or> (k', v') \<in> set al"
  by (induction al) (auto split: if_splits)

lemma flag_lines_entries:
  "(dev, w) \<in> set (flag_lines m s ls d) \<Longrightarrow>
   (dev, w) \<in> set d \<or> (\<exists>a. (w, a) \<in> set ls \<and> dev = \<bar>a - m\<bar> \<and> dev \<ge> s)"
proof (induction ls arbitrary: d)
  case Nil
  then show ?case by simp
next
  case (Cons p ls)
  obtain w' a' where p: "p = (w', a')" by (cases p)
  from Cons.prems have
    "(dev, w) \<in> set (flag_lines m s ls (if \<bar>a' - m\<bar> \<ge> s then AList.update \<bar>a' - m\<bar> w' d else d))"
    by (simp add: p Let_def)
  from Cons.IH [OF this] show ?case
    by (auto simp: p dest: in_set_update split: if_splits)
qed

lemma flag_lines_subset:
  "set (flag_lines m s ls d) \<subseteq> set d \<union> {(\<bar>a - m\<bar>, w) | w a. (w, a) \<in> set ls \<and> \<bar>a - m\<bar> \<ge> s}"
  using flag_lines_entries by fastforce

subsection \<open>The report\<close>

lemma column_Inr: "column t j = Inr xs \<Longrightarrow> xs = map (\<lambda>r. r ! j) t"
  by (auto simp: column_def split: if_splits)

lemma zip_columns: "zip (map f t) (map g t) = map (\<lambda>r. (f r, g r)) t"
  by (induction t) auto

lemma hasOutlier_cases:
  assumes "hasOutlier (fe1, fe2) MOOGv n = Inr d"
  defines "c \<equiv> 5 + (if MOOGv > 2013 then 1 else 0 :: nat)"
  defines "a1 \<equiv> map (\<lambda>r. r ! c) fe1" and "a2 \<equiv> map (\<lambda>r. r ! c) fe2"
  defines "d1 \<equiv> flag_lines (mean a1) (n * std a1) (map (\<lambda>r. (r ! 0, r ! c)) fe1) []"
  shows "d = (if length fe2 > 10
              then flag_lines (mean a2) (n * std a2) (map (\<lambda>r. (r ! 0, r ! c)) fe2) d1
              else d1)"
  using assms(1) unfolding hasOutlier_def Let_def c_def a1_def a2_def d1_def
  by (auto split: sum.splits if_splits dest!: column_Inr simp: zip_columns)

lemma flagged_keys:
  "fst ` flagged n t c = {\<bar>a - mean (map (\<lambda>r. r ! c) t)\<bar> | w a.
      (w, a) \<in> set (map (\<lambda>r. (r ! 0, r ! c)) t)
      \<and> \<bar>a - mean (map (\<lambda>r. r ! c) t)\<bar> \<ge> n * std (map (\<lambda>r. r ! c) t)}"
  unfolding flagged_def deviation_def by (auto simp: image_iff) force+

lemma flagged_entries:
  "{(\<bar>a - mean (map (\<lambda>r. r ! c) t)\<bar>, w) | w a.
      (w, a) \<in> set (map (\<lambda>r. (r ! 0, r ! c)) t)
      \<and> \<bar>a - mean (map (\<lambda>r. r ! c) t)\<bar> \<ge> n * std (map (\<lambda>r. r ! c) t)} = flagged n t c"
  unfolding flagged_def deviation_def by auto

lemma hasOutlier_keys:
  assumes "hasOutlier (fe1, fe2) MOOGv n = Inr d"
  defines "c \<equiv> 5 + (if MOOGv > 2013 then 1 else 0 :: nat)"
  shows "fst ` set d = fst ` flagged n fe1 c \<union> (if length fe2 > 10 then fst ` flagged n fe2 c else {})"
  unfolding hasOutlier_cases [OF assms(1), folded c_def]
  by (simp add: flag_lines_keys flagged_keys Un_commute)

lemma hasOutlier_entries:
  assumes "hasOutlier (fe1, fe2) MOOGv n = Inr d"
  defines "c \<equiv> 5 + (if MOOGv > 2013 then 1 else 0 :: nat)"
  shows "set d \<subseteq> flagged n fe1 c \<union> (if length fe2 > 10 then flagged n fe2 c else {})"
proof -
  note d = hasOutlier_cases [OF assms(1), folded c_def]
  note s1 = flag_lines_subset [of "mean (map (\<lambda>r. r ! c) fe1)" "n * std (map (\<lambda>r. r ! c) fe1)"
          "map (\<lambda>r. (r ! 0, r ! c)) fe1" "[]", unfolded flagged_entries]
  show ?thesis
  proof (cases "length fe2 > 10")
    case True
    then show ?thesis unfolding d
      using s1 flag_lines_subset [of "mean (map (\<lambda>r. r ! c) fe2)" "n * std (map (\<lambda>r. r ! c) fe2)"
          "map (\<lambda>r. (r ! 0, r ! c)) fe2", unfolded flagged_entries]
      by auto
  next
    case False
    then show ?thesis unfolding d using s1 by auto
  qed
qed

lemma hasOutlier_distinct:
  "hasOutlier (fe1, fe2) MOOGv n = Inr d \<Longrightarrow> distinct (map fst d)"
  by (drule hasOutlier_cases) (simp add: flag_lines_distinct)

lemma column_stage_of:
  "column (stage_of ps) 6 = Inr (map snd ps)" "column (stage_of ps) 0 = Inr (map fst ps)"
  by (simp_all add: column_def stage_of_def fe_row_def list_all_iff case_prod_beta o_def)

lemma abundance_column: "map (\<lambda>r. r ! 6) (stage_of ps) = map snd ps"
  by (simp add: stage_of_def fe_row_def case_prod_beta o_def)

lemma hasOutlier_stages:
  "hasOutlier (stage_of ps, stage_of qs) 2014 n =
     Inr (let d = flag_lines (mean (map snd ps)) (n * std (map snd ps)) ps []
          in if length qs > 10
             then flag_lines (mean (map snd qs)) (n * std (map snd qs)) qs d else d)"
proof -
  have l: "length (stage_of qs) = length qs" by (simp add: stage_of_def)
  show ?thesis
    by (simp add: hasOutlier_def Let_def column_stage_of l zip_map_fst_snd)
qed

lemma mean_fe1_stage: "mean (map snd fe1_stage) = 7.41"
  by (simp add: mean_def fe1_stage_def)

lemma std_fe1_stage: "std (map snd fe1_stage) = 0.05"
proof -
  have "std (map snd fe1_stage) = sqrt ((0.05)\<^sup>2)"
    unfolding std_def mean_fe1_stage by (simp add: mean_def fe1_stage_def power2_eq_square)
  then show ?thesis by simp
qed

lemma mean_fe2_long: "mean (map snd fe2_long) = 7.47"
  by (simp add: mean_def fe2_long_def)

lemma std_fe2_long: "std (map snd fe2_long) = 0.1"
proof -
  have "std (map snd fe2_long) = sqrt ((0.1)\<^sup>2)"
    unfolding std_def mean_fe2_long by (simp add: mean_def fe2_long_def power2_eq_square)
  then show ?thesis by simp
qed

lemma mean_fe2_short: "mean (map snd fe2_short) = 7.5"
  by (simp add: mean_def fe2_short_def)

lemma std_fe2_short: "std (map snd fe2_short) = 0.15"
proof -
  have "std (map snd fe2_short) = sqrt ((0.15)\<^sup>2)"
    unfolding std_def mean_fe2_short by (simp add: mean_def fe2_short_def power2_eq_square)
  then show ?thesis by simp
qed

lemma mean_fe1_even: "mean (map snd fe1_even) = 7.45"
  by (simp add: mean_def fe1_even_def)

lemma std_fe1_even: "std (map snd fe1_even) = 0.05"
proof -
  have "std (map snd fe1_even) = sqrt ((0.05)\<^sup>2)"
    unfolding std_def mean_fe1_even by (simp add: mean_def fe1_even_def power2_eq_square)
  then show ?thesis by simp
qed

lemma fe2_lengths: "length fe2_long > 10" "\<not> length fe2_short > 10"
  by (simp_all add: fe2_long_def fe2_short_def)

lemma flag_fe1_stage:
  "flag_lines (741 / 100) (3 / 20) fe1_stage [] = [(1 / 4, 6000.1)]"
  "flag_lines (741 / 100) (1 / 10) fe1_stage [] = [(1 / 4, 6000.1)]"
  by (simp_all add: fe1_stage_def)

lemma flag_fe2_long:
  "flag_lines (747 / 100) (3 / 10) fe2_long [(1 / 4, 6000.1)]
   = [(1 / 4, 6000.1), (1 / 2, 4923.9)]"
  by (simp add: fe2_long_def)

lemma flag_fe1_even: "flag_lines (149 / 20) (3 / 20) fe1_even [] = []"
  by (simp add: fe1_even_def)

lemma hasOutlier_screened:
  "hasOutlier (stage_of fe1_stage, stage_of fe2_long) 2014 3
   = Inr [(1 / 4, 6000.1), (1 / 2, 4923.9)]"
  unfolding hasOutlier_stages mean_fe1_stage std_fe1_stage mean_fe2_long std_fe2_long Let_def
  using fe2_lengths(1) by (simp add: flag_fe1_stage flag_fe2_long)

lemma hasOutlier_unscreened:
  "hasOutlier (stage_of fe1_stage, stage_of fe2_short) 2014 2 = Inr [(1 / 4, 6000.1)]"
  unfolding hasOutlier_stages mean_fe1_stage std_fe1_stage Let_def
  using fe2_lengths(2) by (simp add: flag_fe1_stage)

lemma hasOutlier_even:
  "hasOutlier (stage_of fe1_even, stage_of fe2_short) 2014 3 = Inr []"
  unfolding hasOutlier_stages mean_fe1_even std_fe1_even Let_def
  using fe2_lengths(2) by (simp add: flag_fe1_even)

lemma flagged_fe2_short: "(0.45, 4923.9) \<in> flagged 2 (stage_of fe2_short) 6"
proof -
  have r: "fe_row 4923.9 7.95 \<in> set (stage_of fe2_short)"
    by (simp add: stage_of_def fe2_short_def)
  have d: "deviation (stage_of fe2_short) 6 (fe_row 4923.9 7.95) = 0.45"
    unfolding deviation_def abundance_column mean_fe2_short by (simp add: fe_row_def)
  have "(deviation (stage_of fe2_short) 6 (fe_row 4923.9 7.95), fe_row 4923.9 7.95 ! 0)
          \<in> flagged 2 (stage_of fe2_short) 6"
    unfolding flagged_def using r d
    by (intro CollectI exI [of _ "fe_row 4923.9 7.95"]) (simp add: abundance_column std_fe2_short)
  then show ?thesis
    unfolding d by (simp add: fe_row_def)
qed

text \<open>
  Claim C7.  Per ionization stage, \<open>hasOutlier\<close> puts into its report the deviation of
  every line whose absolute deviation from the mean abundance of the stage is at least
  \<open>n\<close> times the standard deviation of the stage; the second stage is screened only when
  it has more than ten lines.  The report maps each such deviation to the wavelength of a
  line that has it, it holds nothing else, and it is empty exactly when no line
  qualifies.  The multiplier \<open>n\<close> is an argument of the function.
\<close>

theorem hasOutlier_report:
  assumes "hasOutlier (fe1, fe2) MOOGv n = Inr d"
  shows "(let c = 5 + (if MOOGv > 2013 then 1 else 0) in
          fst ` set d = fst ` flagged n fe1 c \<union> (if length fe2 > 10 then fst ` flagged n fe2 c else {})
          \<and> set d \<subseteq> flagged n fe1 c \<union> (if length fe2 > 10 then flagged n fe2 c else {})
          \<and> distinct (map fst d)
          \<and> (d = [] \<longleftrightarrow> flagged n fe1 c = {} \<and> (length fe2 > 10 \<longrightarrow> flagged n fe2 c = {})))"
proof -
  define c :: nat where "c = 5 + (if MOOGv > 2013 then 1 else 0)"
  note keys = hasOutlier_keys [OF assms, folded c_def]
  have "d = [] \<longleftrightarrow> fst ` set d = {}" by simp
  also have "\<dots> \<longleftrightarrow> flagged n fe1 c = {} \<and> (length fe2 > 10 \<longrightarrow> flagged n fe2 c = {})"
    unfolding keys by auto
  finally have "d = [] \<longleftrightarrow> flagged n fe1 c = {} \<and> (length fe2 > 10 \<longrightarrow> flagged n fe2 c = {})" .
  with keys hasOutlier_entries [OF assms, folded c_def] hasOutlier_distinct [OF assms]
  show ?thesis unfolding Let_def c_def by blast
qed

text \<open>
  Three reports.  With three standard deviations and a second stage of 26 lines, the report
  holds the line of each stage that is five standard deviations from its mean.  With two
  standard deviations and a second stage of ten lines, the line of the second stage that
  is three standard deviations from its mean is left out, for that stage is not screened.
  With no line at three standard deviations the report is empty.
\<close>

theorem hasOutlier_report_witness:
  "hasOutlier (stage_of fe1_stage, stage_of fe2_long) 2014 3
     = Inr [(0.25, 6000.1), (0.5, 4923.9)]
   \<and> fst ` flagged 3 (stage_of fe1_stage) 6 \<union> fst ` flagged 3 (stage_of fe2_long) 6 = {0.25, 0.5}
   \<and> hasOutlier (stage_of fe1_stage, stage_of fe2_short) 2014 2 = Inr [(0.25, 6000.1)]
   \<and> fst ` flagged 2 (stage_of fe1_stage) 6 = {0.25}
   \<and> (0.45, 4923.9) \<in> flagged 2 (stage_of fe2_short) 6
   \<and> hasOutlier (stage_of fe1_even, stage_of fe2_short) 2014 3 = Inr []
   \<and> flagged 3 (stage_of fe1_even) 6 = {}"
proof -
  have l: "length (stage_of fe2_long) > 10" "\<not> length (stage_of fe2_short) > 10"
    using fe2_lengths by (simp_all add: stage_of_def)
  have "fst ` flagged 3 (stage_of fe1_stage) 6 \<union> fst ` flagged 3 (stage_of fe2_long) 6 = {0.25, 0.5}"
    using hasOutlier_report [OF hasOutlier_screened] l(1) by (simp add: Let_def)
  moreover have "fst ` flagged 2 (stage_of fe1_stage) 6 = {0.25}"
    using hasOutlier_report [OF hasOutlier_unscreened] l(2) by (simp add: Let_def)
  moreover have "flagged 3 (stage_of fe1_even) 6 = {}"
    using hasOutlier_report [OF hasOutlier_even] l(2) by (simp add: Let_def)
  moreover have "hasOutlier (stage_of fe1_stage, stage_of fe2_long) 2014 3
     = Inr [(0.25, 6000.1), (0.5, 4923.9)]"
    using hasOutlier_screened by simp
  moreover have "hasOutlier (stage_of fe1_stage, stage_of fe2_short) 2014 2 = Inr [(0.25, 6000.1)]"
    using hasOutlier_unscreened by simp
  ultimately show ?thesis using hasOutlier_even flagged_fe2_short by blast
qed

section \<open>ewDriver.py: files, the solver and the outlier runner\<close>

subsection \<open>Builtins\<close>

text \<open>\<open>round(x, n)\<close> of Python 2: the nearest multiple of \<open>10^-n\<close>, a tie away from zero.\<close>

definition py_round :: "real \<Rightarrow> nat \<Rightarrow> real" where
  "py_round x n =
     (if x \<ge> 0 then of_int \<lfloor>x * 10 ^ n + 1 / 2\<rfloor> / 10 ^ n
      else - (of_int \<lfloor>- x * 10 ^ n + 1 / 2\<rfloor> / 10 ^ n))"

text \<open>\<open>s.replace(old, new)\<close> for a non-empty \<open>old\<close>, \<open>s.replace(' ', '')\<close> and
  \<open>s.strip()\<close>.\<close>

fun join :: "string \<Rightarrow> string list \<Rightarrow> string" where
  "join sep [] = []"
| "join sep [x] = x"
| "join sep (x # y # ys) = x @ sep @ join sep (y # ys)"

definition replace :: "string \<Rightarrow> string \<Rightarrow> string \<Rightarrow> string" where
  "replace s old new = join new (split_at old [] s)"

definition no_spaces :: "string \<Rightarrow> string" where
  "no_spaces s = filter (\<lambda>c. c \<noteq> CHR '' '') s"

definition isspace :: "char \<Rightarrow> bool" where
  "isspace c = (let n = (of_char c :: nat) in n = 32 \<or> (9 \<le> n \<and> n \<le> 13))"

definition strip :: "string \<Rightarrow> string" where
  "strip s = rev (dropWhile isspace (rev (dropWhile isspace s)))"

definition isalnum :: "char \<Rightarrow> bool" where
  "isalnum c = (let n = (of_char c :: nat)
                in (48 \<le> n \<and> n \<le> 57) \<or> (65 \<le> n \<and> n \<le> 90) \<or> (97 \<le> n \<and> n \<le> 122))"

text \<open>
  \<open>str\<close> of a float is a parameter of the model.  \<open>str_hundredths\<close> is what it gives on a
  non-negative number of at most two decimals below \<open>10^12\<close>: the integer part, the point,
  and the decimals without a trailing zero (but at least one).
\<close>

definition digit_char :: "nat \<Rightarrow> char" where
  "digit_char d = ''0123456789'' ! d"

function digits10 :: "nat \<Rightarrow> string" where
  "digits10 n = (if n < 10 then [digit_char n] else digits10 (n div 10) @ [digit_char (n mod 10)])"
  by pat_completeness auto
termination
  by (relation "measure id") auto

declare digits10.simps [simp del]

definition str_hundredths :: "real \<Rightarrow> string" where
  "str_hundredths x =
     (let h = nat \<lfloor>x * 100\<rfloor>; f = h mod 100
      in digits10 (h div 100) @ ''.'' @
         (if f mod 10 = 0 then [digit_char (f div 10)]
          else [digit_char (f div 10), digit_char (f mod 10)]))"

subsection \<open>State\<close>

type_synonym params = "real \<times> real \<times> real \<times> real"

datatype policy = OneIter | OneOnce | AllIter | AllOnce

text \<open>The dictionary that \<open>_options\<close> returns; \<open>None\<close> for \<open>False\<close> in \<open>spt\<close> and \<open>outlier\<close>.\<close>

record options =
  spt :: "string option"
  weights :: string
  model :: string
  fix_teff :: bool
  fix_logg :: bool
  fix_feh :: bool
  fix_vt :: bool
  refine :: bool
  iterations :: int
  EPcrit :: real
  RWcrit :: real
  ABdiffcrit :: real
  MOOGv :: int
  outlier :: "policy option"
  teffrange :: bool
  autofixvt :: bool
  tmcalc :: bool
  sigma :: real

definition defaults :: options where
  "defaults = \<lparr> spt = None, weights = ''null'', model = ''kurucz95'',
       fix_teff = False, fix_logg = False, fix_feh = False, fix_vt = False,
       refine = False, iterations = 160, EPcrit = 0.001, RWcrit = 0.003, ABdiffcrit = 0.01,
       MOOGv = 2014, outlier = None, teffrange = False, autofixvt = False, tmcalc = False,
       sigma = 3 \<rparr>"

text \<open>A row of \<open>results.csv\<close>: the list \<open>tmp\<close> of \<open>ewdriver\<close>.\<close>

record row =
  r_linelist :: string
  r_parameters :: "real list"
  r_converged :: bool
  r_fixed :: "bool \<times> bool \<times> bool \<times> bool"
  r_outlier :: "policy option"
  r_weights :: string
  r_model :: string
  r_refine :: bool
  r_crit :: "real \<times> real \<times> real"

text \<open>
  What the driver reads and writes: the files of the line lists (a file is the list of
  its lines), the line list that \<open>batch.par\<close> names (\<open>_update_par\<close>), the Fe statistics of
  \<open>summary.out\<close> as the last run of the engine left them, the rows of \<open>results.csv\<close> and
  the copies of \<open>summary.out\<close> that \<open>_renaming\<close> made.  \<open>runs\<close> records every run of the
  solver: its starting point and the line list it read.
\<close>

record world =
  files :: "string \<Rightarrow> string list option"
  line_list :: string
  summary :: "table \<times> table"
  results :: "row list"
  renamed :: "string list"
  runs :: "(params \<times> string list option) list"

text \<open>
  The collaborators outside these files: \<open>Minimize(...).minimize()\<close> (from the options,
  the starting point and the line list to the outcome and the statistics it leaves in
  \<open>summary.out\<close>), \<open>str\<close>, \<open>np.loadtxt\<close> of the first column of a line list, the lines
  of \<open>rawLinelist/coolNormalDiff.lines\<close>, the reduced-width slope of \<open>fun_moog\<close>,
  \<open>error\<close> and the first interpolation.  With them \<open>_setup\<close> (\<open>ewDriver.py\<close>, which
  reads the starting point and the options from a line of the configuration file) is a
  parameter of the loop.
\<close>

record env =
  solver :: "options \<Rightarrow> params \<Rightarrow> string list option \<Rightarrow> (error + params \<times> bool) \<times> (table \<times> table)"
  pystr :: "real \<Rightarrow> string"
  loadtxt :: "string list \<Rightarrow> error + real list"
  cool_lines :: "error + real list"
  rw_slope :: "options \<Rightarrow> params \<Rightarrow> string list option \<Rightarrow> error + real"
  errors :: "string \<Rightarrow> bool \<Rightarrow> params \<Rightarrow> options \<Rightarrow> world \<Rightarrow> error + real list"
  initial_setup :: "string list \<Rightarrow> error + params \<times> options"
  interpolate :: "params \<Rightarrow> string \<Rightarrow> error + unit"

subsection \<open>File operations\<close>

definition update_par :: "string \<Rightarrow> world \<Rightarrow> world" where
  "update_par name w = w\<lparr>line_list := name\<rparr>"

definition copyfile :: "string \<Rightarrow> string \<Rightarrow> world \<Rightarrow> (error + unit) \<times> world" where
  "copyfile src dst w =
     (case files w src of
        None \<Rightarrow> (Inl IOError, w)
      | Some ls \<Rightarrow> (Inr (), w\<lparr>files := (files w)(dst \<mapsto> ls)\<rparr>))"

definition os_remove :: "string \<Rightarrow> world \<Rightarrow> (error + unit) \<times> world" where
  "os_remove name w =
     (case files w name of
        None \<Rightarrow> (Inl OSError, w)
      | Some ls \<Rightarrow> (Inr (), w\<lparr>files := (files w)(name := None)\<rparr>))"

text \<open>\<open>removeOutlier\<close>: every line that, without its spaces, starts with the text of the
  rounded wavelength is left out; the file is written back under the same name.\<close>

definition removeOutlier :: "env \<Rightarrow> string \<Rightarrow> real \<Rightarrow> world \<Rightarrow> (error + unit) \<times> world" where
  "removeOutlier env fname wavelength w =
     (let wl = pystr env (py_round wavelength 2)
      in case files w fname of
           None \<Rightarrow> (Inl IOError, w)
         | Some ls \<Rightarrow>
             (Inr (), w\<lparr>files := (files w)(fname \<mapsto>
                          filter (\<lambda>line. \<not> startswith (no_spaces line) wl) ls)\<rparr>))"

text \<open>One run of the solver on the line list that \<open>batch.par\<close> names.\<close>

definition minimize :: "env \<Rightarrow> options \<Rightarrow> params \<Rightarrow> world \<Rightarrow> (error + params \<times> bool) \<times> world" where
  "minimize env opts p w =
     (let ll = files w (line_list w);
          out = solver env opts p ll
      in (fst out, w\<lparr>summary := snd out, runs := runs w @ [(p, ll)]\<rparr>))"
subsection \<open>\<open>_outlierRunner\<close>\<close>

text \<open>\<open>outliers[max(outliers.keys())]\<close>.\<close>

definition worst :: "outliers \<Rightarrow> error + real" where
  "worst d =
     (case map fst d of
        [] \<Rightarrow> Inl ValueError
      | k # ks \<Rightarrow> (case map_of d (fold max ks k) of None \<Rightarrow> Inl KeyError | Some w \<Rightarrow> Inr w))"

text \<open>\<open>for wavelength in ...: removeOutlier(fname, wavelength)\<close>.\<close>

fun remove_each :: "env \<Rightarrow> string \<Rightarrow> real list \<Rightarrow> world \<Rightarrow> (error + unit) \<times> world" where
  "remove_each env fname [] w = (Inr (), w)"
| "remove_each env fname (x # xs) w =
     (case removeOutlier env fname x w of
        (Inl e, w') \<Rightarrow> (Inl e, w')
      | (Inr u, w') \<Rightarrow> remove_each env fname xs w')"

text \<open>
  The body shared by \<open>'1Iter'\<close> and \<open>'1Once'\<close>, and the one shared by \<open>'allIter'\<close> and
  \<open>'allOnce'\<close>: remove, restart the solver at \<open>parameters\<close>, look for outliers again.
  The order in which \<open>itervalues\<close> gives the wavelengths is that of the list.
\<close>

definition round_one ::
  "env \<Rightarrow> options \<Rightarrow> string \<Rightarrow> outliers \<Rightarrow> params \<Rightarrow> world \<Rightarrow> (error + params \<times> outliers) \<times> world" where
  "round_one env opts tmpll outliers parameters w =
     (case worst outliers of
        Inl e \<Rightarrow> (Inl e, w)
      | Inr wavelength \<Rightarrow>
     (case removeOutlier env tmpll wavelength w of
        (Inl e, w1) \<Rightarrow> (Inl e, w1)
      | (Inr u, w1) \<Rightarrow>
     (case minimize env opts parameters w1 of
        (Inl e, w2) \<Rightarrow> (Inl e, w2)
      | (Inr (p, converged), w2) \<Rightarrow>
     (case hasOutlier (summary w2) (MOOGv opts) (sigma opts) of
        Inl e \<Rightarrow> (Inl e, w2)
      | Inr outliers' \<Rightarrow> (Inr (p, outliers'), w2)))))"

definition round_all ::
  "env \<Rightarrow> options \<Rightarrow> string \<Rightarrow> outliers \<Rightarrow> params \<Rightarrow> world \<Rightarrow> (error + params \<times> outliers) \<times> world" where
  "round_all env opts tmpll outliers parameters w =
     (case remove_each env tmpll (map snd outliers) w of
        (Inl e, w1) \<Rightarrow> (Inl e, w1)
      | (Inr u, w1) \<Rightarrow>
     (case minimize env opts parameters w1 of
        (Inl e, w2) \<Rightarrow> (Inl e, w2)
      | (Inr (p, converged), w2) \<Rightarrow>
     (case hasOutlier (summary w2) (MOOGv opts) (sigma opts) of
        Inl e \<Rightarrow> (Inl e, w2)
      | Inr outliers' \<Rightarrow> (Inr (p, outliers'), w2))))"

text \<open>The two \<open>while outliers\<close> loops; a loop that never ends has the value \<open>None\<close>.  The
  result holds \<open>parameters\<close> and \<open>newLineList\<close>.\<close>

partial_function (option) while_1Iter ::
  "env \<Rightarrow> options \<Rightarrow> string \<Rightarrow> outliers \<Rightarrow> params \<Rightarrow> bool \<Rightarrow> world
     \<Rightarrow> ((error + params \<times> bool) \<times> world) option" where
  "while_1Iter env opts tmpll outliers parameters newLineList w =
     (if outliers \<noteq> [] then
        (case round_one env opts tmpll outliers parameters w of
           (Inl e, w') \<Rightarrow> Some (Inl e, w')
         | (Inr (p, outliers'), w') \<Rightarrow> while_1Iter env opts tmpll outliers' p True w')
      else Some (Inr (parameters, newLineList), w))"

partial_function (option) while_allIter ::
  "env \<Rightarrow> options \<Rightarrow> string \<Rightarrow> outliers \<Rightarrow> params \<Rightarrow> bool \<Rightarrow> world
     \<Rightarrow> ((error + params \<times> bool) \<times> world) option" where
  "while_allIter env opts tmpll outliers parameters newLineList w =
     (if outliers \<noteq> [] then
        (case round_all env opts tmpll outliers parameters w of
           (Inl e, w') \<Rightarrow> Some (Inl e, w')
         | (Inr (p, outliers'), w') \<Rightarrow> while_allIter env opts tmpll outliers' p True w')
      else Some (Inr (parameters, newLineList), w))"

text \<open>The \<open>if outliers\<close> of \<open>'1Once'\<close> and \<open>'allOnce'\<close>.\<close>

definition once ::
  "(error + params \<times> outliers) \<times> world \<Rightarrow> (error + params \<times> bool) \<times> world" where
  "once r = (case r of (Inl e, w') \<Rightarrow> (Inl e, w') | (Inr (p, outliers'), w') \<Rightarrow> (Inr (p, True), w'))"

definition tmpll :: string where
  "tmpll = ''linelist/tmplinelist.moog''"

text \<open>The end of \<open>_outlierRunner\<close>: the trimmed list gets its new name.\<close>

definition keep_list ::
  "string \<Rightarrow> params \<Rightarrow> bool \<Rightarrow> world \<Rightarrow> (error + string \<times> params) \<times> world" where
  "keep_list linelist parameters newLineList w =
     (if newLineList then
        (let newName = replace linelist ''.moog'' ''_outlier.moog''
         in case copyfile tmpll (''linelist/'' @ newName) w of
              (Inl e, w1) \<Rightarrow> (Inl e, w1)
            | (Inr u, w1) \<Rightarrow>
           (case os_remove tmpll w1 of
              (Inl e, w2) \<Rightarrow> (Inl e, w2)
            | (Inr u, w2) \<Rightarrow> (Inr (newName, parameters), update_par (''linelist/'' @ newName) w2)))
      else
        (case os_remove tmpll (update_par (''linelist/'' @ linelist) w) of
           (Inl e, w2) \<Rightarrow> (Inl e, w2)
         | (Inr u, w2) \<Rightarrow> (Inr (linelist, parameters), w2)))"

definition outlierRunner ::
  "env \<Rightarrow> policy \<Rightarrow> string \<Rightarrow> params \<Rightarrow> options \<Rightarrow> world
     \<Rightarrow> ((error + string \<times> params) \<times> world) option" where
  "outlierRunner env type linelist parameters opts w =
     (case copyfile (''linelist/'' @ linelist) tmpll w of
        (Inl e, w0) \<Rightarrow> Some (Inl e, w0)
      | (Inr u, w0) \<Rightarrow>
     (let w1 = update_par tmpll w0
      in case hasOutlier (summary w1) (MOOGv opts) (sigma opts) of
           Inl e \<Rightarrow> Some (Inl e, w1)
         | Inr outliers \<Rightarrow>
        (case (case type of
                 OneIter \<Rightarrow> while_1Iter env opts tmpll outliers parameters False w1
               | OneOnce \<Rightarrow>
                   Some (if outliers \<noteq> [] then once (round_one env opts tmpll outliers parameters w1)
                         else (Inr (parameters, False), w1))
               | AllIter \<Rightarrow> while_allIter env opts tmpll outliers parameters False w1
               | AllOnce \<Rightarrow>
                   Some (if outliers \<noteq> [] then once (round_all env opts tmpll outliers parameters w1)
                         else (Inr (parameters, False), w1))) of
           None \<Rightarrow> None
         | Some (Inl e, w2) \<Rightarrow> Some (Inl e, w2)
         | Some (Inr (p, newLineList), w2) \<Rightarrow> Some (keep_list linelist p newLineList w2))))"
subsection \<open>\<open>ewdriver\<close>: one line of the configuration file\<close>

text \<open>The blocks of the loop body after the first run of the solver, in the order of the
  source.  \<open>name\<close> is \<open>line[0]\<close>.\<close>

definition outlier_step ::
  "env \<Rightarrow> string \<Rightarrow> params \<Rightarrow> options \<Rightarrow> world \<Rightarrow> ((error + string \<times> params) \<times> world) option" where
  "outlier_step env name parameters opts w =
     (case outlier opts of
        None \<Rightarrow> Some (Inr (name, parameters), w)
      | Some type \<Rightarrow> outlierRunner env type name parameters opts w)"

text \<open>
  \<open>if options['teffrange']\<close>.  The lines to drop are removed from \<open>linelist/name\<close> itself,
  and the \<open>except ValueError\<close> of the restart has no \<open>continue\<close>: the job goes on with the
  parameters it had.
\<close>

definition teffrange_step ::
  "env \<Rightarrow> string \<Rightarrow> params \<Rightarrow> bool \<Rightarrow> options \<Rightarrow> world
     \<Rightarrow> ((error + string \<times> params \<times> bool) \<times> world) option" where
  "teffrange_step env name parameters converged opts w =
     (if teffrange opts then
        (case cool_lines env of
           Inl e \<Rightarrow> Some (Inl e, w)
         | Inr d \<Rightarrow>
        (case files w (''linelist/'' @ name) of
           None \<Rightarrow> Some (Inl IOError, w)
         | Some content \<Rightarrow>
        (case loadtxt env content of
           Inl e \<Rightarrow> Some (Inl e, w)
         | Inr ll \<Rightarrow>
        (let normalLL = filter (\<lambda>x. x \<in> set d) ll
         in if normalLL \<noteq> [] \<and> fst parameters > 7000 then Some (Inr (name, parameters, converged), w)
            else if normalLL \<noteq> [] \<and> fst parameters < 5200 then
              (case remove_each env (''linelist/'' @ name) normalLL w of
                 (Inl e, w1) \<Rightarrow> Some (Inl e, w1)
               | (Inr u, w1) \<Rightarrow>
              (case (case minimize env opts parameters w1 of
                       (Inl e, w2) \<Rightarrow> if e = ValueError then (Inr (parameters, converged), w2)
                                      else (Inl e, w2)
                     | (Inr pc, w2) \<Rightarrow> (Inr pc, w2)) of
                 (Inl e, w2) \<Rightarrow> Some (Inl e, w2)
               | (Inr (p, c), w2) \<Rightarrow>
              (case outlier_step env name p opts w2 of
                 None \<Rightarrow> None
               | Some (Inl e, w3) \<Rightarrow> Some (Inl e, w3)
               | Some (Inr (newName, p'), w3) \<Rightarrow> Some (Inr (newName, p', c), w3))))
            else Some (Inr (name, parameters, converged), w)))))
      else Some (Inr (name, parameters, converged), w))"

definition autofixvt_step ::
  "env \<Rightarrow> params \<Rightarrow> bool \<Rightarrow> options \<Rightarrow> world \<Rightarrow> (error + params \<times> bool \<times> options) \<times> world" where
  "autofixvt_step env parameters converged opts w =
     (if autofixvt opts \<and> \<not> converged then
        (case rw_slope env opts parameters (files w (line_list w)) of
           Inl e \<Rightarrow> (Inl e, w)
         | Inr RWs \<Rightarrow>
        (let vt = snd (snd (snd parameters))
         in if (vt < 0.05 \<and> \<bar>RWs\<bar> > 0.050) \<or> (vt > 9.95 \<and> \<bar>RWs\<bar> > 0.050) then
              (let opts' = opts\<lparr>fix_vt := True\<rparr>
               in case minimize env opts' parameters w of
                    (Inl e, w1) \<Rightarrow> (Inl e, w1)
                  | (Inr (p, c), w1) \<Rightarrow> (Inr (p, c, opts'), w1))
            else (Inr (parameters, converged, opts), w)))
      else (Inr (parameters, converged, opts), w))"

text \<open>\<open># Refine the parameters\<close>.\<close>

definition refine_step ::
  "env \<Rightarrow> params \<Rightarrow> bool \<Rightarrow> options \<Rightarrow> world \<Rightarrow> (error + params \<times> options) \<times> world" where
  "refine_step env parameters converged opts w =
     (if converged \<and> refine opts then
        (let opts' = opts\<lparr>EPcrit := py_round (EPcrit opts / 3) 4,
                          RWcrit := py_round (RWcrit opts / 3) 4,
                          ABdiffcrit := py_round (ABdiffcrit opts / 3) 4\<rparr>
         in case minimize env opts' parameters w of
              (Inl e, w1) \<Rightarrow> (Inl e, w1)
            | (Inr (p1, c), w1) \<Rightarrow> (Inr (if c then p1 else parameters, opts'), w1))
      else (Inr (parameters, opts), w))"

text \<open>\<open>_renaming\<close>, \<open>error\<close>, the two corrected gravities and \<open>_output\<close>.\<close>

definition finish_job ::
  "env \<Rightarrow> string \<Rightarrow> params \<Rightarrow> bool \<Rightarrow> options \<Rightarrow> world \<Rightarrow> (error + unit) \<times> world" where
  "finish_job env name parameters converged opts w =
     (let w1 = w\<lparr>renamed := renamed w @
                  [if converged then ''results/'' @ name @ ''.out''
                   else ''results/'' @ name @ ''.NC.out'']\<rparr>
      in case errors env name converged parameters opts w1 of
           Inl e \<Rightarrow> (Inl e, w1)
         | Inr ps \<Rightarrow>
             if length ps < 4 then (Inl IndexError, w1)
             else
               (let loggLC = py_round (ps ! 2 - 4.57 / 10 ^ 4 * ps ! 0 + 2.59) 2;
                    error_loggLC = py_round (sqrt ((4.57 / 10 ^ 4 * ps ! 1)\<^sup>2 + (ps ! 3)\<^sup>2)) 2;
                    loggastero = py_round (ps ! 2 - 3.89 / 10 ^ 4 * ps ! 0 + 2.10) 2;
                    error_loggastero = py_round (sqrt ((3.89 / 10 ^ 4 * ps ! 1)\<^sup>2 + (ps ! 3)\<^sup>2)) 2;
                    tmp = \<lparr> r_linelist = name,
                            r_parameters = ps @ [loggastero, error_loggastero, loggLC, error_loggLC],
                            r_converged = converged,
                            r_fixed = (fix_teff opts, fix_logg opts, fix_feh opts, fix_vt opts),
                            r_outlier = outlier opts, r_weights = weights opts,
                            r_model = model opts, r_refine = refine opts,
                            r_crit = (EPcrit opts, RWcrit opts, ABdiffcrit opts) \<rparr>
                in (Inr (), w1\<lparr>results := results w1 @ [tmp]\<rparr>)))"

text \<open>From the first successful run of the solver to the row of the results.\<close>

definition run_job ::
  "env \<Rightarrow> string \<Rightarrow> params \<Rightarrow> bool \<Rightarrow> options \<Rightarrow> world \<Rightarrow> ((error + unit) \<times> world) option" where
  "run_job env name parameters converged opts w =
     (case outlier_step env name parameters opts w of
        None \<Rightarrow> None
      | Some (Inl e, w1) \<Rightarrow> Some (Inl e, w1)
      | Some (Inr (name1, p1), w1) \<Rightarrow>
     (case teffrange_step env name1 p1 converged opts w1 of
        None \<Rightarrow> None
      | Some (Inl e, w2) \<Rightarrow> Some (Inl e, w2)
      | Some (Inr (name2, p2, c2), w2) \<Rightarrow>
     (case autofixvt_step env p2 c2 opts w2 of
        (Inl e, w3) \<Rightarrow> Some (Inl e, w3)
      | (Inr (p3, c3, opts3), w3) \<Rightarrow>
     (case refine_step env p3 c3 opts3 w3 of
        (Inl e, w4) \<Rightarrow> Some (Inl e, w4)
      | (Inr (p4, opts4), w4) \<Rightarrow> Some (finish_job env name2 p4 c3 opts4 w4)))))"

text \<open>
  One line of the configuration file.  A result \<open>Inr ()\<close> is the end of the loop body or a
  \<open>continue\<close>; \<open>Inl e\<close> is an exception that leaves \<open>ewdriver\<close>.  Only the \<open>ValueError\<close> of
  the first run of the solver is caught here.
\<close>

definition process_line :: "env \<Rightarrow> string \<Rightarrow> world \<Rightarrow> ((error + unit) \<times> world) option" where
  "process_line env line w =
     (case line of
        [] \<Rightarrow> Some (Inl IndexError, w)
      | c # cs \<Rightarrow>
          if \<not> isalnum c then Some (Inr (), w)
          else
            (let fields = split_at '' '' [] (strip line)
             in if length fields \<notin> {1, 2, 5, 6} then Some (Inr (), w)
                else
                  (let name = hd fields
                   in if files w (''linelist/'' @ name) = None then Some (Inr (), w)
                      else
                        (let w0 = update_par (''linelist/'' @ name) w
                         in case initial_setup env fields of
                              Inl e \<Rightarrow> Some (Inl e, w0)
                            | Inr (initial, opts) \<Rightarrow>
                                if model opts \<notin> set [''kurucz95'', ''apogee_kurucz'', ''marcs'']
                                then Some (Inr (), w0)
                                else
                                  (case interpolate env initial (model opts) of
                                     Inl e \<Rightarrow> Some (Inl e, w0)
                                   | Inr u \<Rightarrow>
                                  (case minimize env opts initial w0 of
                                     (Inl e, w1) \<Rightarrow>
                                       if e = ValueError then Some (Inr (), w1)
                                       else Some (Inl e, w1)
                                   | (Inr (parameters, converged), w1) \<Rightarrow>
                                       run_job env name parameters converged opts w1))))))"

text \<open>The \<open>for line in lines\<close> of \<open>ewdriver\<close>.\<close>

fun ewdriver :: "env \<Rightarrow> string list \<Rightarrow> world \<Rightarrow> ((error + unit) \<times> world) option" where
  "ewdriver env [] w = Some (Inr (), w)"
| "ewdriver env (line # lines) w =
     (case process_line env line w of
        None \<Rightarrow> None
      | Some (Inl e, w') \<Rightarrow> Some (Inl e, w')
      | Some (Inr u, w') \<Rightarrow> ewdriver env lines w')"

section \<open>A stub of the collaborators\<close>

text \<open>
  Concrete collaborators to run the driver on: the engine measures the second ionization
  stage when the line list has a line of species \<open>26.1\<close>, the solver raises
  \<open>ValueError\<close> when it does not and otherwise converges at once where it started;
  \<open>np.loadtxt\<close> reads the first field of every line after the header.
\<close>

definition fields_of :: "string \<Rightarrow> string list" where
  "fields_of l = filter (\<lambda>f. f \<noteq> []) (split_at '' '' [] l)"

definition has_stage2 :: "string list option \<Rightarrow> bool" where
  "has_stage2 ll = (case ll of None \<Rightarrow> False | Some ls \<Rightarrow> list_ex (\<lambda>l. ''26.1'' \<in> set (fields_of l)) ls)"

definition stub_solver ::
  "options \<Rightarrow> params \<Rightarrow> string list option \<Rightarrow> (error + params \<times> bool) \<times> (table \<times> table)" where
  "stub_solver opts p ll = (if has_stage2 ll then (Inr (p, True), ([], [])) else (Inl ValueError, ([], [])))"

fun first_column :: "string list \<Rightarrow> error + real list" where
  "first_column [] = Inr []"
| "first_column (l # ls) =
     (case fields_of l of
        [] \<Rightarrow> Inl IndexError
      | f # fs \<Rightarrow> (case decimal_float f of
                    None \<Rightarrow> Inl ValueError
                  | Some x \<Rightarrow> (case first_column ls of Inl e \<Rightarrow> Inl e | Inr xs \<Rightarrow> Inr (x # xs))))"

definition stub_env :: "params \<Rightarrow> options \<Rightarrow> env" where
  "stub_env initial opts =
     \<lparr> solver = stub_solver,
       pystr = str_hundredths,
       loadtxt = (\<lambda>content. first_column (tl content)),
       cool_lines = Inr [5000.3, 5100.7],
       rw_slope = (\<lambda>opts p ll. Inr 0),
       errors = (\<lambda>name converged p opts w.
                  Inr [fst p, 50, fst (snd p), 0.1, fst (snd (snd p)), 0.05, snd (snd (snd p)), 0.1]),
       initial_setup = (\<lambda>fields. Inr (initial, opts)),
       interpolate = (\<lambda>p m. Inr ()) \<rparr>"

definition world0 :: world where
  "world0 = \<lparr> files = Map.empty, line_list = [], summary = ([], []), results = [],
              renamed = [], runs = [] \<rparr>"

section \<open>The refine pass\<close>

lemma py_round_close: "\<bar>py_round x n - x\<bar> \<le> 1 / (2 * 10 ^ n)"
proof -
  have pos: "(0::real) < 10 ^ n" by simp
  have *: "\<bar>of_int \<lfloor>y + 1 / 2\<rfloor> - y\<bar> \<le> 1 / 2" for y :: real
    by linarith
  show ?thesis
  proof (cases "x \<ge> 0")
    case True
    have "\<bar>py_round x n - x\<bar> = \<bar>of_int \<lfloor>x * 10 ^ n + 1 / 2\<rfloor> - x * 10 ^ n\<bar> / 10 ^ n"
      using True pos by (simp add: py_round_def field_simps abs_divide)
    also have "\<dots> \<le> (1 / 2) / 10 ^ n"
      by (rule divide_right_mono [OF * [of "x * 10 ^ n"]]) simp
    finally show ?thesis by simp
  next
    case False
    have "\<bar>py_round x n - x\<bar> = \<bar>of_int \<lfloor>- x * 10 ^ n + 1 / 2\<rfloor> - (- x * 10 ^ n)\<bar> / 10 ^ n"
      using False pos by (simp add: py_round_def field_simps abs_divide)
    also have "\<dots> \<le> (1 / 2) / 10 ^ n"
      by (rule divide_right_mono [OF * [of "- x * 10 ^ n"]]) simp
    finally show ?thesis by simp
  qed
qed

lemma refine_step_options:
  assumes "converged" and "refine opts"
    and "refine_step env parameters converged opts w = (Inr (p, opts'), w')"
  shows "opts' = opts\<lparr>EPcrit := py_round (EPcrit opts / 3) 4,
                       RWcrit := py_round (RWcrit opts / 3) 4,
                       ABdiffcrit := py_round (ABdiffcrit opts / 3) 4\<rparr>"
  using assms unfolding refine_step_def Let_def
  by (auto split: prod.splits sum.splits)

text \<open>
  Claim C3, as the code has it.  When the refine pass runs (the solver converged and the
  option is set), each of the three thresholds after it is the threshold before it divided
  by 3 and rounded to four decimals, so it is within \<open>0.00005\<close> of the third; no other
  option changes.
\<close>

theorem refine_thresholds_rounded_thirds:
  assumes "converged" and "refine opts"
    and "refine_step env parameters converged opts w = (Inr (p, opts'), w')"
  shows "EPcrit opts' = py_round (EPcrit opts / 3) 4
       \<and> RWcrit opts' = py_round (RWcrit opts / 3) 4
       \<and> ABdiffcrit opts' = py_round (ABdiffcrit opts / 3) 4
       \<and> \<bar>EPcrit opts' - EPcrit opts / 3\<bar> \<le> 1 / 20000
       \<and> \<bar>RWcrit opts' - RWcrit opts / 3\<bar> \<le> 1 / 20000
       \<and> \<bar>ABdiffcrit opts' - ABdiffcrit opts / 3\<bar> \<le> 1 / 20000
       \<and> opts' = opts\<lparr>EPcrit := EPcrit opts', RWcrit := RWcrit opts', ABdiffcrit := ABdiffcrit opts'\<rparr>"
proof -
  note o = refine_step_options [OF assms]
  have e: "EPcrit opts' = py_round (EPcrit opts / 3) 4"
    and r: "RWcrit opts' = py_round (RWcrit opts / 3) 4"
    and a: "ABdiffcrit opts' = py_round (ABdiffcrit opts / 3) 4"
    by (simp_all add: o)
  have "opts' = opts\<lparr>EPcrit := EPcrit opts', RWcrit := RWcrit opts', ABdiffcrit := ABdiffcrit opts'\<rparr>"
    unfolding e r a by (rule o)
  then show ?thesis
    using e r a py_round_close [of "EPcrit opts / 3" 4] py_round_close [of "RWcrit opts / 3" 4]
      py_round_close [of "ABdiffcrit opts / 3" 4]
    by simp
qed

definition one_line_list :: "string list" where
  "one_line_list = [''star'', ''5000.10  26.0  2.50  -1.20  50.0'', ''5100.20  26.1  2.80  -2.00  30.0'']"

definition refine_world :: world where
  "refine_world = world0\<lparr>files := [''linelist/star.moog'' \<mapsto> one_line_list],
                         line_list := ''linelist/star.moog''\<rparr>"

lemma py_round_defaults:
  "py_round (0.001 / 3) 4 = 0.0003" "py_round (0.003 / 3) 4 = 0.001" "py_round (0.01 / 3) 4 = 0.0033"
  by (simp_all add: py_round_def)

lemma refine_step_defaults:
  "refine_step (stub_env (5777, 4.44, 0, 1) defaults) (5777, 4.44, 0, 1) True
       (defaults\<lparr>refine := True\<rparr>) refine_world
   = (Inr ((5777, 4.44, 0, 1),
           defaults\<lparr>refine := True, EPcrit := 0.0003, RWcrit := 0.001, ABdiffcrit := 0.0033\<rparr>),
      refine_world\<lparr>runs := [((5777, 4.44, 0, 1), Some one_line_list)]\<rparr>)"
  by (simp add: refine_step_def minimize_def stub_env_def stub_solver_def has_stage2_def
      refine_world_def world0_def one_line_list_def fields_of_def defaults_def py_round_def Let_def)

theorem refine_thresholds_rounded_thirds_witness:
  "EPcrit (defaults\<lparr>refine := True, EPcrit := 0.0003, RWcrit := 0.001, ABdiffcrit := 0.0033\<rparr>)
     = py_round (EPcrit (defaults\<lparr>refine := True\<rparr>) / 3) 4
   \<and> py_round (EPcrit (defaults\<lparr>refine := True\<rparr>) / 3) 4 = 0.0003
   \<and> \<bar>0.0003 - EPcrit (defaults\<lparr>refine := True\<rparr>) / 3\<bar> \<le> (1 / 20000 :: real)"
  using refine_thresholds_rounded_thirds [OF _ _ refine_step_defaults]
  by (simp add: defaults_def py_round_defaults)

text \<open>With the default thresholds the refine pass leaves \<open>EPcrit = 0.0003\<close>, which is not
  \<open>0.001 / 3\<close>.\<close>

theorem refine_thresholds_counterexample:
  "fst (refine_step (stub_env (5777, 4.44, 0, 1) defaults) (5777, 4.44, 0, 1) True
          (defaults\<lparr>refine := True\<rparr>) refine_world)
     = Inr ((5777, 4.44, 0, 1),
            defaults\<lparr>refine := True, EPcrit := 0.0003, RWcrit := 0.001, ABdiffcrit := 0.0033\<rparr>)
   \<and> EPcrit (defaults\<lparr>refine := True\<rparr>) = 0.001
   \<and> (0.0003 :: real) \<noteq> 0.001 / 3"
  unfolding refine_step_defaults by (simp add: defaults_def)

section \<open>Removing outliers: the policies that run once\<close>

text \<open>
  A star with 26 Fe I lines and 3 Fe II lines.  The abundance of the line at 5000.10 is five
  standard deviations above the mean of its stage (mean 7.41, deviation 0.05); every other
  line is a fifth of a standard deviation below it.  The line at 5000.15 is one of those.
\<close>

definition star_fe1 :: "(real \<times> real) list" where
  "star_fe1 =
     [(5000.10, 7.66), (5000.15, 7.40), (5100.20, 7.40), (5200.50, 7.40), (5300.80, 7.40),
      (5401.10, 7.40), (5501.40, 7.40), (5601.70, 7.40), (5702.00, 7.40), (5802.30, 7.40),
      (5902.60, 7.40), (6002.90, 7.40), (6103.20, 7.40), (6203.50, 7.40), (6303.80, 7.40),
      (6404.10, 7.40), (6504.40, 7.40), (6604.70, 7.40), (6705.00, 7.40), (6805.30, 7.40),
      (6905.60, 7.40), (7005.90, 7.40), (7106.20, 7.40), (7206.50, 7.40), (7306.80, 7.40),
      (7407.10, 7.40)]"

definition star_fe2 :: "(real \<times> real) list" where
  "star_fe2 = [(5200.30, 7.45), (5300.40, 7.45), (5400.50, 7.45)]"

definition star_lines :: "string list" where
  "star_lines =
     [''star'', ''  5000.10   26.0   2.50  -1.20   50.0'',
      ''  5000.15   26.0   2.50  -1.20   50.0'', ''  5100.20   26.0   2.50  -1.20   50.0'',
      ''  5200.50   26.0   2.50  -1.20   50.0'', ''  5300.80   26.0   2.50  -1.20   50.0'',
      ''  5401.10   26.0   2.50  -1.20   50.0'', ''  5501.40   26.0   2.50  -1.20   50.0'',
      ''  5601.70   26.0   2.50  -1.20   50.0'', ''  5702.00   26.0   2.50  -1.20   50.0'',
      ''  5802.30   26.0   2.50  -1.20   50.0'', ''  5902.60   26.0   2.50  -1.20   50.0'',
      ''  6002.90   26.0   2.50  -1.20   50.0'', ''  6103.20   26.0   2.50  -1.20   50.0'',
      ''  6203.50   26.0   2.50  -1.20   50.0'', ''  6303.80   26.0   2.50  -1.20   50.0'',
      ''  6404.10   26.0   2.50  -1.20   50.0'', ''  6504.40   26.0   2.50  -1.20   50.0'',
      ''  6604.70   26.0   2.50  -1.20   50.0'', ''  6705.00   26.0   2.50  -1.20   50.0'',
      ''  6805.30   26.0   2.50  -1.20   50.0'', ''  6905.60   26.0   2.50  -1.20   50.0'',
      ''  7005.90   26.0   2.50  -1.20   50.0'', ''  7106.20   26.0   2.50  -1.20   50.0'',
      ''  7206.50   26.0   2.50  -1.20   50.0'', ''  7306.80   26.0   2.50  -1.20   50.0'',
      ''  7407.10   26.0   2.50  -1.20   50.0'', ''  5200.30   26.1   2.50  -1.20   50.0'',
      ''  5300.40   26.1   2.50  -1.20   50.0'', ''  5400.50   26.1   2.50  -1.20   50.0'']"

definition star_trimmed :: "string list" where
  "star_trimmed =
     [''star'', ''  5100.20   26.0   2.50  -1.20   50.0'',
      ''  5200.50   26.0   2.50  -1.20   50.0'', ''  5300.80   26.0   2.50  -1.20   50.0'',
      ''  5401.10   26.0   2.50  -1.20   50.0'', ''  5501.40   26.0   2.50  -1.20   50.0'',
      ''  5601.70   26.0   2.50  -1.20   50.0'', ''  5702.00   26.0   2.50  -1.20   50.0'',
      ''  5802.30   26.0   2.50  -1.20   50.0'', ''  5902.60   26.0   2.50  -1.20   50.0'',
      ''  6002.90   26.0   2.50  -1.20   50.0'', ''  6103.20   26.0   2.50  -1.20   50.0'',
      ''  6203.50   26.0   2.50  -1.20   50.0'', ''  6303.80   26.0   2.50  -1.20   50.0'',
      ''  6404.10   26.0   2.50  -1.20   50.0'', ''  6504.40   26.0   2.50  -1.20   50.0'',
      ''  6604.70   26.0   2.50  -1.20   50.0'', ''  6705.00   26.0   2.50  -1.20   50.0'',
      ''  6805.30   26.0   2.50  -1.20   50.0'', ''  6905.60   26.0   2.50  -1.20   50.0'',
      ''  7005.90   26.0   2.50  -1.20   50.0'', ''  7106.20   26.0   2.50  -1.20   50.0'',
      ''  7206.50   26.0   2.50  -1.20   50.0'', ''  7306.80   26.0   2.50  -1.20   50.0'',
      ''  7407.10   26.0   2.50  -1.20   50.0'', ''  5200.30   26.1   2.50  -1.20   50.0'',
      ''  5300.40   26.1   2.50  -1.20   50.0'', ''  5400.50   26.1   2.50  -1.20   50.0'']"

definition star_world :: world where
  "star_world = world0\<lparr>files := [''linelist/star.moog'' \<mapsto> star_lines],
                       line_list := ''linelist/star.moog'',
                       summary := (stage_of star_fe1, stage_of star_fe2)\<rparr>"

definition star :: params where
  "star = (5777, 4.44, 0, 1)"

text \<open>What a run of \<open>_outlierRunner\<close> leaves: the name it returns, the file of that name,
  the temporary file and the number of runs of the solver.\<close>

definition outcome ::
  "((error + string \<times> params) \<times> world) option
     \<Rightarrow> (string \<times> string list option \<times> string list option \<times> nat) option" where
  "outcome r =
     (case r of
        Some (Inr (name, p), w) \<Rightarrow>
          Some (name, files w (''linelist/'' @ name), files w tmpll, length (runs w))
      | _ \<Rightarrow> None)"

lemma mean_star_fe1: "mean (map snd star_fe1) = 7.41"
  by (simp add: mean_def star_fe1_def)

lemma std_star_fe1: "std (map snd star_fe1) = 0.05"
proof -
  have "std (map snd star_fe1) = sqrt ((0.05)\<^sup>2)"
    unfolding std_def mean_star_fe1 by (simp add: mean_def star_fe1_def power2_eq_square)
  then show ?thesis by simp
qed

lemma star_fe2_not_screened: "\<not> length (stage_of star_fe2) > 10"
  by (simp add: stage_of_def star_fe2_def)

lemma hasOutlier_star:
  "hasOutlier (stage_of star_fe1, stage_of star_fe2) 2014 3 = Inr [(0.25, 5000.1)]"
proof -
  have "hasOutlier (stage_of star_fe1, stage_of star_fe2) 2014 3
        = Inr (flag_lines (mean (map snd star_fe1)) (3 * std (map snd star_fe1))
                 (zip (map fst star_fe1) (map snd star_fe1)) [])"
    using star_fe2_not_screened by (simp add: hasOutlier_def Let_def column_stage_of)
  also have "\<dots> = Inr [(0.25, 5000.1)]"
    unfolding mean_star_fe1 std_star_fe1 by (simp add: star_fe1_def)
  finally show ?thesis .
qed

lemma str_5000_1: "str_hundredths (py_round 5000.1 2) = ''5000.1''"
  by (simp add: py_round_def str_hundredths_def Let_def digit_char_def digits10.simps)

lemma remove_5000_1:
  "filter (\<lambda>line. \<not> startswith (no_spaces line) ''5000.1'') star_lines = star_trimmed"
  by (simp add: star_lines_def star_trimmed_def startswith_def no_spaces_def)

lemma star_has_stage2: "has_stage2 (Some star_trimmed)"
  by (simp add: has_stage2_def star_trimmed_def fields_of_def)

lemma hasOutlier_nothing: "hasOutlier ([], []) v n = Inr []"
  by (simp add: hasOutlier_def column_def)

lemma worst_single: "worst [(k, v)] = Inr v"
  by (simp add: worst_def)

lemma new_name_star: "replace ''star.moog'' ''.moog'' ''_outlier.moog'' = ''star_outlier.moog''"
  by (simp add: replace_def)

lemma round_one_star:
  "round_one (stub_env star defaults) opts tmpll [(1 / 4, 5000.1)] star
      (update_par tmpll (star_world\<lparr>files := (files star_world)(tmpll \<mapsto> star_lines)\<rparr>))
   = (Inr (star, []),
      star_world\<lparr>files := (files star_world)(tmpll \<mapsto> star_trimmed),
                  line_list := tmpll, summary := ([], []),
                  runs := [(star, Some star_trimmed)]\<rparr>)"
  by (simp add: round_one_def worst_single removeOutlier_def minimize_def stub_env_def
      stub_solver_def update_par_def str_5000_1 remove_5000_1 star_has_stage2 hasOutlier_nothing
      star_world_def world0_def Let_def)

lemma single_once_star:
  "outlierRunner (stub_env star defaults) OneOnce ''star.moog'' star
      (defaults\<lparr>outlier := Some OneOnce\<rparr>) star_world
   = Some (Inr (''star_outlier.moog'', star),
      star_world\<lparr>files := [''linelist/star.moog'' \<mapsto> star_lines,
                            ''linelist/star_outlier.moog'' \<mapsto> star_trimmed],
                  line_list := ''linelist/star_outlier.moog'', summary := ([], []),
                  runs := [(star, Some star_trimmed)]\<rparr>)"
proof -
  have c: "copyfile ''linelist/star.moog'' tmpll star_world
           = (Inr (), star_world\<lparr>files := (files star_world)(tmpll \<mapsto> star_lines)\<rparr>)"
    by (simp add: copyfile_def star_world_def world0_def)
  have h: "hasOutlier (summary (update_par tmpll (star_world\<lparr>files := (files star_world)(tmpll \<mapsto> star_lines)\<rparr>)))
             (MOOGv defaults) (sigma defaults)
           = Inr [(1 / 4, 5000.1)]"
    using hasOutlier_star by (simp add: update_par_def star_world_def world0_def defaults_def)
  have k: "keep_list ''star.moog'' star True
             (star_world\<lparr>files := (files star_world)(tmpll \<mapsto> star_trimmed),
                  line_list := tmpll, summary := ([], []),
                  runs := [(star, Some star_trimmed)]\<rparr>)
           = (Inr (''star_outlier.moog'', star),
              star_world\<lparr>files := [''linelist/star.moog'' \<mapsto> star_lines,
                            ''linelist/star_outlier.moog'' \<mapsto> star_trimmed],
                  line_list := ''linelist/star_outlier.moog'', summary := ([], []),
                  runs := [(star, Some star_trimmed)]\<rparr>)"
    by (simp add: keep_list_def new_name_star copyfile_def os_remove_def update_par_def tmpll_def
        star_world_def world0_def fun_upd_twist Let_def)
  show ?thesis
    unfolding outlierRunner_def
    by (simp add: c h round_one_star once_def k Let_def)
qed

text \<open>
  Claim C4, at a line list where it fails.  The star of the previous section has exactly
  one line beyond three standard deviations, the line at 5000.10.  Under \<open>'1Once'\<close> the
  solver is run again once, but the new line list has lost two lines: \<open>removeOutlier\<close>
  drops every line that starts with \<open>5000.1\<close>, and the line at 5000.15 does.
\<close>

theorem single_once_removes_a_second_line:
  "hasOutlier (summary star_world) 2014 3 = Inr [(0.25, 5000.1)]
   \<and> outcome (outlierRunner (stub_env star defaults) OneOnce ''star.moog'' star
                (defaults\<lparr>outlier := Some OneOnce\<rparr>) star_world)
       = Some (''star_outlier.moog'', Some star_trimmed, None, 1)
   \<and> ''  5000.15   26.0   2.50  -1.20   50.0'' \<in> set star_lines
   \<and> ''  5000.15   26.0   2.50  -1.20   50.0'' \<notin> set star_trimmed
   \<and> length star_lines = length star_trimmed + 2"
proof -
  have "hasOutlier (summary star_world) 2014 3 = Inr [(0.25, 5000.1)]"
    using hasOutlier_star by (simp add: star_world_def world0_def)
  moreover have "outcome (outlierRunner (stub_env star defaults) OneOnce ''star.moog'' star
                (defaults\<lparr>outlier := Some OneOnce\<rparr>) star_world)
       = Some (''star_outlier.moog'', Some star_trimmed, None, 1)"
    unfolding single_once_star by (simp add: outcome_def tmpll_def)
  moreover have "''  5000.15   26.0   2.50  -1.20   50.0'' \<in> set star_lines"
    "''  5000.15   26.0   2.50  -1.20   50.0'' \<notin> set star_trimmed"
    "length star_lines = length star_trimmed + 2"
    by (simp_all add: star_lines_def star_trimmed_def)
  ultimately show ?thesis by blast
qed

section \<open>Two lines with the same deviation\<close>

text \<open>
  A star with 34 Fe I lines, mean abundance 7.42 and standard deviation 0.08: the lines at
  5000.10 and at 9000.30 have the same abundance, 7.74, four standard deviations above
  the mean.
\<close>

definition twin_fe1 :: "(real \<times> real) list" where
  "twin_fe1 =
     [(5000.10, 7.74), (5100.20, 7.40), (5200.50, 7.40), (5300.80, 7.40), (5401.10, 7.40),
      (5501.40, 7.40), (5601.70, 7.40), (5702.00, 7.40), (5802.30, 7.40), (5902.60, 7.40),
      (6002.90, 7.40), (6103.20, 7.40), (6203.50, 7.40), (6303.80, 7.40), (6404.10, 7.40),
      (6504.40, 7.40), (6604.70, 7.40), (6705.00, 7.40), (6805.30, 7.40), (6905.60, 7.40),
      (7005.90, 7.40), (7106.20, 7.40), (7206.50, 7.40), (7306.80, 7.40), (7407.10, 7.40),
      (7507.40, 7.40), (7607.70, 7.40), (7708.00, 7.40), (7808.30, 7.40), (7908.60, 7.40),
      (8008.90, 7.40), (8109.20, 7.40), (8209.50, 7.40), (9000.30, 7.74)]"

definition twin_lines :: "string list" where
  "twin_lines =
     [''twin'', ''  5000.10   26.0   2.50  -1.20   50.0'',
      ''  5100.20   26.0   2.50  -1.20   50.0'', ''  5200.50   26.0   2.50  -1.20   50.0'',
      ''  5300.80   26.0   2.50  -1.20   50.0'', ''  5401.10   26.0   2.50  -1.20   50.0'',
      ''  5501.40   26.0   2.50  -1.20   50.0'', ''  5601.70   26.0   2.50  -1.20   50.0'',
      ''  5702.00   26.0   2.50  -1.20   50.0'', ''  5802.30   26.0   2.50  -1.20   50.0'',
      ''  5902.60   26.0   2.50  -1.20   50.0'', ''  6002.90   26.0   2.50  -1.20   50.0'',
      ''  6103.20   26.0   2.50  -1.20   50.0'', ''  6203.50   26.0   2.50  -1.20   50.0'',
      ''  6303.80   26.0   2.50  -1.20   50.0'', ''  6404.10   26.0   2.50  -1.20   50.0'',
      ''  6504.40   26.0   2.50  -1.20   50.0'', ''  6604.70   26.0   2.50  -1.20   50.0'',
      ''  6705.00   26.0   2.50  -1.20   50.0'', ''  6805.30   26.0   2.50  -1.20   50.0'',
      ''  6905.60   26.0   2.50  -1.20   50.0'', ''  7005.90   26.0   2.50  -1.20   50.0'',
      ''  7106.20   26.0   2.50  -1.20   50.0'', ''  7206.50   26.0   2.50  -1.20   50.0'',
      ''  7306.80   26.0   2.50  -1.20   50.0'', ''  7407.10   26.0   2.50  -1.20   50.0'',
      ''  7507.40   26.0   2.50  -1.20   50.0'', ''  7607.70   26.0   2.50  -1.20   50.0'',
      ''  7708.00   26.0   2.50  -1.20   50.0'', ''  7808.30   26.0   2.50  -1.20   50.0'',
      ''  7908.60   26.0   2.50  -1.20   50.0'', ''  8008.90   26.0   2.50  -1.20   50.0'',
      ''  8109.20   26.0   2.50  -1.20   50.0'', ''  8209.50   26.0   2.50  -1.20   50.0'',
      ''  9000.30   26.0   2.50  -1.20   50.0'', ''  5200.30   26.1   2.50  -1.20   50.0'',
      ''  5300.40   26.1   2.50  -1.20   50.0'', ''  5400.50   26.1   2.50  -1.20   50.0'']"

definition twin_trimmed :: "string list" where
  "twin_trimmed =
     [''twin'', ''  5000.10   26.0   2.50  -1.20   50.0'',
      ''  5100.20   26.0   2.50  -1.20   50.0'', ''  5200.50   26.0   2.50  -1.20   50.0'',
      ''  5300.80   26.0   2.50  -1.20   50.0'', ''  5401.10   26.0   2.50  -1.20   50.0'',
      ''  5501.40   26.0   2.50  -1.20   50.0'', ''  5601.70   26.0   2.50  -1.20   50.0'',
      ''  5702.00   26.0   2.50  -1.20   50.0'', ''  5802.30   26.0   2.50  -1.20   50.0'',
      ''  5902.60   26.0   2.50  -1.20   50.0'', ''  6002.90   26.0   2.50  -1.20   50.0'',
      ''  6103.20   26.0   2.50  -1.20   50.0'', ''  6203.50   26.0   2.50  -1.20   50.0'',
      ''  6303.80   26.0   2.50  -1.20   50.0'', ''  6404.10   26.0   2.50  -1.20   50.0'',
      ''  6504.40   26.0   2.50  -1.20   50.0'', ''  6604.70   26.0   2.50  -1.20   50.0'',
      ''  6705.00   26.0   2.50  -1.20   50.0'', ''  6805.30   26.0   2.50  -1.20   50.0'',
      ''  6905.60   26.0   2.50  -1.20   50.0'', ''  7005.90   26.0   2.50  -1.20   50.0'',
      ''  7106.20   26.0   2.50  -1.20   50.0'', ''  7206.50   26.0   2.50  -1.20   50.0'',
      ''  7306.80   26.0   2.50  -1.20   50.0'', ''  7407.10   26.0   2.50  -1.20   50.0'',
      ''  7507.40   26.0   2.50  -1.20   50.0'', ''  7607.70   26.0   2.50  -1.20   50.0'',
      ''  7708.00   26.0   2.50  -1.20   50.0'', ''  7808.30   26.0   2.50  -1.20   50.0'',
      ''  7908.60   26.0   2.50  -1.20   50.0'', ''  8008.90   26.0   2.50  -1.20   50.0'',
      ''  8109.20   26.0   2.50  -1.20   50.0'', ''  8209.50   26.0   2.50  -1.20   50.0'',
      ''  5200.30   26.1   2.50  -1.20   50.0'', ''  5300.40   26.1   2.50  -1.20   50.0'',
      ''  5400.50   26.1   2.50  -1.20   50.0'']"

definition twin_world :: world where
  "twin_world = world0\<lparr>files := [''linelist/twin.moog'' \<mapsto> twin_lines],
                       line_list := ''linelist/twin.moog'',
                       summary := (stage_of twin_fe1, stage_of star_fe2)\<rparr>"

lemma mean_twin_fe1: "mean (map snd twin_fe1) = 7.42"
  by (simp add: mean_def twin_fe1_def)

lemma std_twin_fe1: "std (map snd twin_fe1) = 0.08"
proof -
  have "std (map snd twin_fe1) = sqrt ((0.08)\<^sup>2)"
    unfolding std_def mean_twin_fe1 by (simp add: mean_def twin_fe1_def power2_eq_square)
  then show ?thesis by simp
qed

lemma hasOutlier_twin:
  "hasOutlier (stage_of twin_fe1, stage_of star_fe2) 2014 3 = Inr [(8 / 25, 9000.3)]"
proof -
  have "hasOutlier (stage_of twin_fe1, stage_of star_fe2) 2014 3
        = Inr (flag_lines (mean (map snd twin_fe1)) (3 * std (map snd twin_fe1))
                 (zip (map fst twin_fe1) (map snd twin_fe1)) [])"
    using star_fe2_not_screened by (simp add: hasOutlier_def Let_def column_stage_of)
  also have "\<dots> = Inr [(8 / 25, 9000.3)]"
    unfolding mean_twin_fe1 std_twin_fe1 by (simp add: twin_fe1_def)
  finally show ?thesis .
qed

lemma flagged_twin_first: "(0.32, 5000.1) \<in> flagged 3 (stage_of twin_fe1) 6"
proof -
  have r: "fe_row 5000.1 7.74 \<in> set (stage_of twin_fe1)"
    by (simp add: stage_of_def twin_fe1_def)
  have d: "deviation (stage_of twin_fe1) 6 (fe_row 5000.1 7.74) = 0.32"
    unfolding deviation_def abundance_column mean_twin_fe1 by (simp add: fe_row_def)
  have "(deviation (stage_of twin_fe1) 6 (fe_row 5000.1 7.74), fe_row 5000.1 7.74 ! 0)
          \<in> flagged 3 (stage_of twin_fe1) 6"
    unfolding flagged_def using r d
    by (intro CollectI exI [of _ "fe_row 5000.1 7.74"]) (simp add: abundance_column std_twin_fe1)
  then show ?thesis
    unfolding d by (simp add: fe_row_def)
qed

lemma str_9000_3: "str_hundredths (py_round 9000.3 2) = ''9000.3''"
  by (simp add: py_round_def str_hundredths_def Let_def digit_char_def digits10.simps)

lemma remove_9000_3:
  "filter (\<lambda>line. \<not> startswith (no_spaces line) ''9000.3'') twin_lines = twin_trimmed"
  by (simp add: twin_lines_def twin_trimmed_def startswith_def no_spaces_def)

lemma twin_has_stage2: "has_stage2 (Some twin_trimmed)"
  by (simp add: has_stage2_def twin_trimmed_def fields_of_def)

lemma new_name_twin: "replace ''twin.moog'' ''.moog'' ''_outlier.moog'' = ''twin_outlier.moog''"
  by (simp add: replace_def)

lemma round_all_twin:
  "round_all (stub_env star defaults) opts tmpll [(8 / 25, 9000.3)] star
      (update_par tmpll (twin_world\<lparr>files := (files twin_world)(tmpll \<mapsto> twin_lines)\<rparr>))
   = (Inr (star, []),
      twin_world\<lparr>files := (files twin_world)(tmpll \<mapsto> twin_trimmed),
                  line_list := tmpll, summary := ([], []),
                  runs := [(star, Some twin_trimmed)]\<rparr>)"
  by (simp add: round_all_def removeOutlier_def minimize_def stub_env_def
      stub_solver_def update_par_def str_9000_3 remove_9000_3 twin_has_stage2 hasOutlier_nothing
      twin_world_def world0_def Let_def)

lemma all_once_twin:
  "outlierRunner (stub_env star defaults) AllOnce ''twin.moog'' star
      (defaults\<lparr>outlier := Some AllOnce\<rparr>) twin_world
   = Some (Inr (''twin_outlier.moog'', star),
      twin_world\<lparr>files := [''linelist/twin.moog'' \<mapsto> twin_lines,
                            ''linelist/twin_outlier.moog'' \<mapsto> twin_trimmed],
                  line_list := ''linelist/twin_outlier.moog'', summary := ([], []),
                  runs := [(star, Some twin_trimmed)]\<rparr>)"
proof -
  have c: "copyfile ''linelist/twin.moog'' tmpll twin_world
           = (Inr (), twin_world\<lparr>files := (files twin_world)(tmpll \<mapsto> twin_lines)\<rparr>)"
    by (simp add: copyfile_def twin_world_def world0_def)
  have h: "hasOutlier (summary (update_par tmpll (twin_world\<lparr>files := (files twin_world)(tmpll \<mapsto> twin_lines)\<rparr>)))
             (MOOGv defaults) (sigma defaults)
           = Inr [(8 / 25, 9000.3)]"
    using hasOutlier_twin by (simp add: update_par_def twin_world_def world0_def defaults_def)
  have k: "keep_list ''twin.moog'' star True
             (twin_world\<lparr>files := (files twin_world)(tmpll \<mapsto> twin_trimmed),
                  line_list := tmpll, summary := ([], []),
                  runs := [(star, Some twin_trimmed)]\<rparr>)
           = (Inr (''twin_outlier.moog'', star),
              twin_world\<lparr>files := [''linelist/twin.moog'' \<mapsto> twin_lines,
                            ''linelist/twin_outlier.moog'' \<mapsto> twin_trimmed],
                  line_list := ''linelist/twin_outlier.moog'', summary := ([], []),
                  runs := [(star, Some twin_trimmed)]\<rparr>)"
    by (simp add: keep_list_def new_name_twin copyfile_def os_remove_def update_par_def tmpll_def
        twin_world_def world0_def fun_upd_twist Let_def)
  show ?thesis
    unfolding outlierRunner_def
    by (simp add: c h round_all_twin once_def k Let_def)
qed

lemma report_functional:
  assumes "hasOutlier (fe1, fe2) v n = Inr d"
    and "(dev, w1) \<in> set d" and "(dev, w2) \<in> set d"
  shows "w1 = w2"
  using hasOutlier_distinct [OF assms(1)] assms(2,3) by (meson eq_key_imp_eq_value)

text \<open>
  Claim C9.  The report of \<open>hasOutlier\<close> is keyed by the deviation: it holds one
  wavelength per deviation, so of two flagged lines with the same deviation only one is
  reported, and the report has as many entries as there are distinct deviations among the
  flagged lines.  Hence one pass of \<open>'allOnce'\<close> need not remove every flagged line: for
  the star above, whose two flagged lines have the same abundance, it removes the line at
  9000.30 and keeps the line at 5000.10.
\<close>

theorem report_keeps_one_line_per_deviation:
  assumes "hasOutlier (fe1, fe2) v n = Inr d"
  shows "(\<forall>dev w1 w2. (dev, w1) \<in> set d \<and> (dev, w2) \<in> set d \<longrightarrow> w1 = w2)
       \<and> length d = card (fst ` (flagged n fe1 (5 + (if v > 2013 then 1 else 0))
                   \<union> (if length fe2 > 10 then flagged n fe2 (5 + (if v > 2013 then 1 else 0)) else {})))"
proof -
  have "length d = card (fst ` set d)"
    using hasOutlier_distinct [OF assms] by (metis distinct_card length_map set_map)
  then show ?thesis
    using report_functional [OF assms] hasOutlier_keys [OF assms]
    by (auto simp: image_Un)
qed

theorem report_keeps_one_line_per_deviation_witness:
  "hasOutlier (stage_of twin_fe1, stage_of star_fe2) 2014 3 = Inr [(0.32, 9000.3)]
   \<and> (0.32, 5000.1) \<in> flagged 3 (stage_of twin_fe1) 6
   \<and> card (fst ` flagged 3 (stage_of twin_fe1) 6) = 1
   \<and> outcome (outlierRunner (stub_env star defaults) AllOnce ''twin.moog'' star
                (defaults\<lparr>outlier := Some AllOnce\<rparr>) twin_world)
       = Some (''twin_outlier.moog'', Some twin_trimmed, None, 1)
   \<and> ''  5000.10   26.0   2.50  -1.20   50.0'' \<in> set twin_trimmed"
proof -
  have "card (fst ` flagged 3 (stage_of twin_fe1) 6) = 1"
    using report_keeps_one_line_per_deviation [OF hasOutlier_twin] star_fe2_not_screened
    by simp
  moreover have "hasOutlier (stage_of twin_fe1, stage_of star_fe2) 2014 3 = Inr [(0.32, 9000.3)]"
    using hasOutlier_twin by simp
  moreover have "''  5000.10   26.0   2.50  -1.20   50.0'' \<in> set twin_trimmed"
    by (simp add: twin_trimmed_def)
  moreover have "outcome (outlierRunner (stub_env star defaults) AllOnce ''twin.moog'' star
                (defaults\<lparr>outlier := Some AllOnce\<rparr>) twin_world)
       = Some (''twin_outlier.moog'', Some twin_trimmed, None, 1)"
    unfolding all_once_twin by (simp add: outcome_def tmpll_def)
  ultimately show ?thesis using flagged_twin_first by blast
qed

section \<open>Jobs that prune the line list for a cool star\<close>

text \<open>
  Three line lists for a star of 5000 K, run with the option \<open>teffrange\<close>.  The lines at
  5000.30 and 5100.70 are among those of \<open>coolNormalDiff.lines\<close>.  In \<open>cool.moog\<close> a line
  of the second ionization stage is left after the pruning, in \<open>ion.moog\<close> none is, and
  \<open>fe1.moog\<close> has none from the start.
\<close>

definition cool_star :: params where
  "cool_star = (5000, 4.44, 0, 1)"

definition cool_options :: options where
  "cool_options = defaults\<lparr>teffrange := True\<rparr>"

definition cool_lines_file :: "string list" where
  "cool_lines_file =
     [''cool'', ''5000.30 26.0 2.50 -1.20 50.0'', ''5300.80 26.0 2.50 -1.20 50.0'',
      ''5100.70 26.1 2.80 -2.00 30.0'', ''5400.50 26.1 2.80 -2.00 30.0'']"

definition cool_pruned :: "string list" where
  "cool_pruned =
     [''cool'', ''5300.80 26.0 2.50 -1.20 50.0'', ''5400.50 26.1 2.80 -2.00 30.0'']"

definition ion_lines_file :: "string list" where
  "ion_lines_file =
     [''ion'', ''5000.30 26.0 2.50 -1.20 50.0'', ''5300.80 26.0 2.50 -1.20 50.0'',
      ''5100.70 26.1 2.80 -2.00 30.0'']"

definition ion_pruned :: "string list" where
  "ion_pruned = [''ion'', ''5300.80 26.0 2.50 -1.20 50.0'']"

definition fe1_lines_file :: "string list" where
  "fe1_lines_file = [''fe1'', ''5300.80 26.0 2.50 -1.20 50.0'']"

definition cool_world :: world where
  "cool_world = world0\<lparr>files := [''linelist/cool.moog'' \<mapsto> cool_lines_file,
                                   ''linelist/ion.moog'' \<mapsto> ion_lines_file,
                                   ''linelist/fe1.moog'' \<mapsto> fe1_lines_file]\<rparr>"

text \<open>The name of the line list in the rows of the results, and the number of rows.\<close>

definition rows_of :: "((error + unit) \<times> world) option \<Rightarrow> string list option" where
  "rows_of r = (case r of Some (Inr u, w) \<Rightarrow> Some (map r_linelist (results w)) | _ \<Rightarrow> None)"

definition file_after :: "string \<Rightarrow> ((error + unit) \<times> world) option \<Rightarrow> string list option" where
  "file_after name r = (case r of Some (x, w) \<Rightarrow> files w name | None \<Rightarrow> None)"

lemma job_fields:
  "split_at '' '' [] (strip ''cool.moog teffrange'') = [''cool.moog'', ''teffrange'']"
  "split_at '' '' [] (strip ''ion.moog teffrange'') = [''ion.moog'', ''teffrange'']"
  "split_at '' '' [] (strip ''fe1.moog teffrange'') = [''fe1.moog'', ''teffrange'']"
  by (simp_all add: strip_def isspace_def)

lemma stage2_lists:
  "has_stage2 (Some cool_lines_file)" "has_stage2 (Some cool_pruned)"
  "has_stage2 (Some ion_lines_file)" "\<not> has_stage2 (Some ion_pruned)"
  "\<not> has_stage2 (Some fe1_lines_file)"
  by (simp_all add: has_stage2_def fields_of_def cool_lines_file_def cool_pruned_def
      ion_lines_file_def ion_pruned_def fe1_lines_file_def)

lemma first_columns:
  "first_column (tl cool_lines_file) = Inr [5000.3, 5300.80, 5100.7, 5400.50]"
  "first_column (tl ion_lines_file) = Inr [5000.3, 5300.80, 5100.7]"
  by (simp_all add: cool_lines_file_def ion_lines_file_def fields_of_def decimal_float_def
      unsigned_decimal_def digit_of_def)

lemma str_cool:
  "str_hundredths (py_round 5000.3 2) = ''5000.3''"
  "str_hundredths (py_round 5100.7 2) = ''5100.7''"
  by (simp_all add: py_round_def str_hundredths_def Let_def digit_char_def digits10.simps)

lemma prune_cool:
  "filter (\<lambda>line. \<not> startswith (no_spaces line) ''5000.3''
                 \<and> \<not> startswith (no_spaces line) ''5100.7'') cool_lines_file = cool_pruned"
  "filter (\<lambda>line. \<not> startswith (no_spaces line) ''5000.3''
                 \<and> \<not> startswith (no_spaces line) ''5100.7'') ion_lines_file = ion_pruned"
  by (simp_all add: cool_lines_file_def cool_pruned_def ion_lines_file_def ion_pruned_def
      startswith_def no_spaces_def)

definition cool_env :: "(string \<Rightarrow> bool \<Rightarrow> params \<Rightarrow> options \<Rightarrow> world \<Rightarrow> error + real list) \<Rightarrow> env" where
  "cool_env f = (stub_env cool_star cool_options)\<lparr>errors := f\<rparr>"

definition after_first_run :: "string \<Rightarrow> string list \<Rightarrow> world" where
  "after_first_run name ls =
     cool_world\<lparr>line_list := ''linelist/'' @ name, runs := [(cool_star, Some ls)]\<rparr>"

definition after_pruning :: "string \<Rightarrow> string list \<Rightarrow> string list \<Rightarrow> world" where
  "after_pruning name ls ls' =
     cool_world\<lparr>files := (files cool_world)(''linelist/'' @ name \<mapsto> ls'),
                 line_list := ''linelist/'' @ name,
                 runs := [(cool_star, Some ls), (cool_star, Some ls')]\<rparr>"

lemma cool_env_fields:
  "solver (cool_env f) = stub_solver" "pystr (cool_env f) = str_hundredths"
  "loadtxt (cool_env f) = (\<lambda>content. first_column (tl content))"
  "cool_lines (cool_env f) = Inr [5000.3, 5100.7]"
  "initial_setup (cool_env f) = (\<lambda>fields. Inr (cool_star, cool_options))"
  "interpolate (cool_env f) = (\<lambda>p m. Inr ())"
  "errors (cool_env f) = f"
  by (simp_all add: cool_env_def stub_env_def)

lemma cool_options_fields:
  "teffrange cool_options" "outlier cool_options = None" "\<not> autofixvt cool_options"
  "\<not> refine cool_options" "model cool_options = ''kurucz95''"
  by (simp_all add: cool_options_def defaults_def)

lemma cool_files:
  "files cool_world (''linelist/'' @ ''cool.moog'') = Some cool_lines_file"
  "files cool_world (''linelist/'' @ ''ion.moog'') = Some ion_lines_file"
  "files cool_world (''linelist/'' @ ''fe1.moog'') = Some fe1_lines_file"
  by (simp_all add: cool_world_def world0_def)

lemma remove_each_two:
  assumes "files w fname = Some ls" and "pystr env (py_round a 2) = sa" and "pystr env (py_round b 2) = sb"
  shows "remove_each env fname [a, b] w
         = (Inr (), w\<lparr>files := (files w)(fname \<mapsto>
              filter (\<lambda>line. \<not> startswith (no_spaces line) sa \<and> \<not> startswith (no_spaces line) sb) ls)\<rparr>)"
  using assms by (simp add: removeOutlier_def Let_def conj_commute)

lemma teffrange_step_pruning:
  assumes f: "files cool_world (''linelist/'' @ name) = Some ls"
    and c: "first_column (tl ls) = Inr xs" and n: "filter (\<lambda>x. x \<in> set [5000.3, 5100.7]) xs = [5000.3, 5100.7]"
    and p: "filter (\<lambda>line. \<not> startswith (no_spaces line) ''5000.3''
                 \<and> \<not> startswith (no_spaces line) ''5100.7'') ls = ls'"
  shows "teffrange_step (cool_env f) name cool_star True cool_options (after_first_run name ls)
         = Some (Inr (name, cool_star, True), after_pruning name ls ls')"
proof -
  have w: "files (after_first_run name ls) (''linelist/'' @ name) = Some ls"
    using f by (simp add: after_first_run_def del: append.simps)
  have r: "remove_each (cool_env f) (''linelist/'' @ name) [5000.3, 5100.7] (after_first_run name ls)
           = (Inr (), (after_first_run name ls)\<lparr>files := (files (after_first_run name ls))(''linelist/'' @ name \<mapsto> ls')\<rparr>)"
    using remove_each_two [OF w, of "cool_env f" "5000.3" "''5000.3''" "5100.7" "''5100.7''"] p
    by (simp add: cool_env_fields str_cool del: append.simps)
  have m: "minimize (cool_env f) cool_options cool_star
             ((after_first_run name ls)\<lparr>files := (files (after_first_run name ls))(''linelist/'' @ name \<mapsto> ls')\<rparr>)
           = (if has_stage2 (Some ls') then Inr (cool_star, True) else Inl ValueError,
              after_pruning name ls ls')"
    by (simp add: minimize_def cool_env_fields stub_solver_def after_first_run_def after_pruning_def
        cool_world_def world0_def Let_def del: append.simps)
  have t: "fst cool_star < 5200" "\<not> fst cool_star > 7000"
    by (simp_all add: cool_star_def)
  show ?thesis
    unfolding teffrange_step_def
    by (simp add: cool_options_fields cool_env_fields w c n r m t outlier_step_def Let_def
        del: set_simps filter.simps append.simps remove_each.simps)
qed

lemma run_job_cool:
  assumes "teffrange_step env name cool_star True cool_options w = Some (Inr (name, cool_star, True), w')"
  shows "run_job env name cool_star True cool_options w
         = Some (finish_job env name cool_star True cool_options w')"
  using assms
  by (simp add: run_job_def outlier_step_def autofixvt_step_def refine_step_def cool_options_fields)

lemma first_run:
  assumes "files cool_world (''linelist/'' @ name) = Some ls"
  shows "minimize (cool_env f) cool_options cool_star (update_par (''linelist/'' @ name) cool_world)
         = (if has_stage2 (Some ls) then Inr (cool_star, True) else Inl ValueError,
            after_first_run name ls)"
  using assms
  by (simp add: minimize_def cool_env_fields stub_solver_def update_par_def
      after_first_run_def cool_world_def world0_def Let_def)

lemma process_line_start:
  assumes "split_at '' '' [] (strip (c # cs)) = [name, x]" and "isalnum c"
    and "files cool_world (''linelist/'' @ name) = Some ls"
  shows "process_line (cool_env f) (c # cs) cool_world
         = (case minimize (cool_env f) cool_options cool_star
                   (update_par (''linelist/'' @ name) cool_world) of
              (Inl e, w1) \<Rightarrow> if e = ValueError then Some (Inr (), w1) else Some (Inl e, w1)
            | (Inr (parameters, converged), w1) \<Rightarrow>
                run_job (cool_env f) name parameters converged cool_options w1)"
  unfolding process_line_def
  using assms by (simp add: Let_def cool_env_fields cool_options_fields)

lemma process_line_cool:
  "process_line (cool_env f) ''cool.moog teffrange'' cool_world
   = Some (finish_job (cool_env f) ''cool.moog'' cool_star True cool_options
             (after_pruning ''cool.moog'' cool_lines_file cool_pruned))"
proof -
  have "isalnum CHR ''c''" by (simp add: isalnum_def)
  note s = process_line_start [OF job_fields(1) this cool_files(1), of f]
  have n: "filter (\<lambda>x. x \<in> set [5000.3, 5100.7]) [5000.3, 5300.80, 5100.7, 5400.50] = [5000.3, 5100.7 :: real]"
    by simp
  note t = teffrange_step_pruning [OF cool_files(1) first_columns(1) n prune_cool(1), of f]
  show ?thesis
    unfolding s first_run [OF cool_files(1)]
    using run_job_cool [of "cool_env f" "''cool.moog''" "after_first_run ''cool.moog'' cool_lines_file"] t
    by (simp add: stage2_lists)
qed

lemma process_line_ion:
  "process_line (cool_env f) ''ion.moog teffrange'' cool_world
   = Some (finish_job (cool_env f) ''ion.moog'' cool_star True cool_options
             (after_pruning ''ion.moog'' ion_lines_file ion_pruned))"
proof -
  have "isalnum CHR ''i''" by (simp add: isalnum_def)
  note s = process_line_start [OF job_fields(2) this cool_files(2), of f]
  have n: "filter (\<lambda>x. x \<in> set [5000.3, 5100.7]) [5000.3, 5300.80, 5100.7] = [5000.3, 5100.7 :: real]"
    by simp
  note t = teffrange_step_pruning [OF cool_files(2) first_columns(2) n prune_cool(2), of f]
  show ?thesis
    unfolding s first_run [OF cool_files(2)]
    using run_job_cool [of "cool_env f" "''ion.moog''" "after_first_run ''ion.moog'' ion_lines_file"] t
    by (simp add: stage2_lists)
qed

lemma process_line_fe1:
  "process_line (cool_env f) ''fe1.moog teffrange'' cool_world
   = Some (Inr (), after_first_run ''fe1.moog'' fe1_lines_file)"
proof -
  have "isalnum CHR ''f''" by (simp add: isalnum_def)
  note s = process_line_start [OF job_fields(3) this cool_files(3), of f]
  show ?thesis
    unfolding s first_run [OF cool_files(3)] by (simp add: stage2_lists)
qed

lemma finish_job_row:
  assumes "errors env name converged p opts (w\<lparr>renamed := renamed w @
                  [if converged then ''results/'' @ name @ ''.out''
                   else ''results/'' @ name @ ''.NC.out'']\<rparr>) = Inr ps" and "length ps \<ge> 4"
  shows "rows_of (Some (finish_job env name p converged opts w)) = Some (map r_linelist (results w) @ [name])"
    and "file_after fname (Some (finish_job env name p converged opts w)) = files w fname"
  using assms by (simp_all add: finish_job_def rows_of_def file_after_def Let_def)

lemma stub_errors: "cool_env (errors (stub_env cool_star cool_options)) = stub_env cool_star cool_options"
  by (simp add: cool_env_def)

lemma stub_rows:
  "rows_of (Some (finish_job (stub_env cool_star cool_options) name cool_star True cool_options w))
     = Some (map r_linelist (results w) @ [name])"
  "file_after fname (Some (finish_job (stub_env cool_star cool_options) name cool_star True cool_options w))
     = files w fname"
  by (simp_all add: finish_job_def stub_env_def rows_of_def file_after_def Let_def)

text \<open>
  When the first run of the solver on a job raises \<open>ValueError\<close>, the job ends there:
  the rows of the results are as before and the solver has been run once.
\<close>

lemma first_run_failure_skips_job:
  assumes "isalnum c" and "split_at '' '' [] (strip (c # cs)) = name # rest"
    and "length (name # rest) \<in> {1, 2, 5, 6}"
    and "files w (''linelist/'' @ name) = Some ls"
    and "initial_setup env (name # rest) = Inr (initial, opts)"
    and "model opts \<in> set [''kurucz95'', ''apogee_kurucz'', ''marcs'']"
    and "interpolate env initial (model opts) = Inr ()"
    and "fst (solver env opts initial (Some ls)) = Inl ValueError"
  shows "process_line env (c # cs) w
         = Some (Inr (), w\<lparr>line_list := ''linelist/'' @ name,
                             summary := snd (solver env opts initial (Some ls)),
                             runs := runs w @ [(initial, Some ls)]\<rparr>)"
  unfolding process_line_def
  using assms by (auto simp: Let_def minimize_def update_par_def simp del: append.simps)

text \<open>
  Claim C5, at a job where it fails.  With the option \<open>teffrange\<close> and no outlier policy,
  the lines that do not suit a cool star are removed from \<open>linelist/cool.moog\<close> itself:
  at the end of the job the file of the original name holds the pruned list, the row of
  the results carries the original name, and no other line list has been written.
\<close>

theorem teffrange_prunes_the_original_list:
  "files cool_world ''linelist/cool.moog'' = Some cool_lines_file
   \<and> rows_of (process_line (stub_env cool_star cool_options) ''cool.moog teffrange'' cool_world)
       = Some [''cool.moog'']
   \<and> file_after ''linelist/cool.moog''
         (process_line (stub_env cool_star cool_options) ''cool.moog teffrange'' cool_world)
       = Some cool_pruned
   \<and> file_after ''linelist/cool_outlier.moog''
         (process_line (stub_env cool_star cool_options) ''cool.moog teffrange'' cool_world)
       = None
   \<and> cool_pruned \<noteq> cool_lines_file"
  using process_line_cool [of "errors (stub_env cool_star cool_options)"]
  unfolding stub_errors
  by (simp add: stub_rows after_pruning_def cool_world_def world0_def cool_pruned_def
      cool_lines_file_def)

text \<open>
  Claim C6, at a job where it fails.  In \<open>ion.moog\<close> the only line of the second
  ionization stage is one of those that the option \<open>teffrange\<close> removes.  The restart of
  the solver on the pruned list raises \<open>ValueError\<close>, yet the job is not skipped: whatever
  \<open>error\<close> does, the job goes on to the end of the loop body, and with the stub it writes
  a row.  A list without such a line from the start (\<open>fe1.moog\<close>) is skipped at the first
  run, as the claim says.
\<close>

theorem missing_stage_after_pruning_is_not_skipped:
  "fst (stub_solver cool_options cool_star (Some ion_pruned)) = Inl ValueError
   \<and> process_line (cool_env f) ''ion.moog teffrange'' cool_world
       = Some (finish_job (cool_env f) ''ion.moog'' cool_star True cool_options
                 (after_pruning ''ion.moog'' ion_lines_file ion_pruned))
   \<and> rows_of (process_line (stub_env cool_star cool_options) ''ion.moog teffrange'' cool_world)
       = Some [''ion.moog'']
   \<and> rows_of (process_line (stub_env cool_star cool_options) ''fe1.moog teffrange'' cool_world)
       = Some []"
proof -
  have "rows_of (process_line (stub_env cool_star cool_options) ''ion.moog teffrange'' cool_world)
       = Some [''ion.moog'']"
    using process_line_ion [of "errors (stub_env cool_star cool_options)"]
    unfolding stub_errors
    by (simp add: stub_rows after_pruning_def cool_world_def world0_def)
  moreover have "rows_of (process_line (stub_env cool_star cool_options) ''fe1.moog teffrange'' cool_world)
       = Some []"
    using process_line_fe1 [of "errors (stub_env cool_star cool_options)"]
    unfolding stub_errors
    by (simp add: rows_of_def after_first_run_def cool_world_def world0_def)
  moreover have "fst (stub_solver cool_options cool_star (Some ion_pruned)) = Inl ValueError"
    by (simp add: stub_solver_def stage2_lists)
  ultimately show ?thesis
    using process_line_ion [of f] by blast
qed

section \<open>interpolation.py: arrays\<close>

text \<open>
  A two-dimensional numpy array: its number of columns and its rows.  An array of
  \<open>read_model\<close> is rectangular (\<open>rect\<close>); it may have no row and still have columns.
\<close>

record array2 =
  ncols :: nat
  rows :: "real list list"

definition rect :: "array2 \<Rightarrow> bool" where
  "rect a = list_all (\<lambda>r. length r = ncols a) (rows a)"

definition shape0 :: "array2 \<Rightarrow> nat" where
  "shape0 a = length (rows a)"

definition shape1 :: "array2 \<Rightarrow> nat" where
  "shape1 a = ncols a"

text \<open>\<open>a[layer, column]\<close>, for indices the caller keeps in range.\<close>

definition cell :: "array2 \<Rightarrow> nat \<Rightarrow> nat \<Rightarrow> real" where
  "cell a i j = rows a ! i ! j"

text \<open>The array that the two nested \<open>for\<close> loops fill: \<open>np.zeros((layers, columns))\<close> with
  every cell assigned once.\<close>

definition tabulate :: "nat \<Rightarrow> nat \<Rightarrow> (nat \<Rightarrow> nat \<Rightarrow> real) \<Rightarrow> array2" where
  "tabulate layers columns f =
     \<lparr> ncols = columns, rows = map (\<lambda>layer. map (f layer) [0..<columns]) [0..<layers] \<rparr>"

text \<open>The first \<open>layers\<close> rows and \<open>columns\<close> columns of an array.\<close>

definition crop :: "nat \<Rightarrow> nat \<Rightarrow> array2 \<Rightarrow> array2" where
  "crop layers columns a =
     \<lparr> ncols = min columns (ncols a), rows = map (take columns) (take layers (rows a)) \<rparr>"

text \<open>\<open>min([...])\<close>; \<open>ValueError\<close> on the empty list.\<close>

definition py_min :: "nat list \<Rightarrow> error + nat" where
  "py_min xs = (case xs of [] \<Rightarrow> Inl ValueError | x # ys \<Rightarrow> Inr (fold min ys x))"

section \<open>interpolation.py: \<open>interpolator\<close>\<close>

text \<open>
  \<open>scipy.ndimage.map_coordinates(tlayer, coord, order=1)\<close> on the tensor of shape
  \<open>(2, 2, 2)\<close>, from the library's documentation: linear interpolation along each of the
  three axes, and the constant \<open>cval = 0\<close> at a point outside the tensor (the default mode
  \<open>constant\<close>).  The tensor is the list of its eight entries in the order of
  \<open>np.unravel_index\<close>: entry \<open>(i, j, k)\<close> is number \<open>4 i + 2 j + k\<close>.
\<close>

definition lerp :: "real \<Rightarrow> real \<Rightarrow> real \<Rightarrow> real" where
  "lerp t a b = (1 - t) * a + t * b"

definition corner :: "real list \<Rightarrow> nat \<Rightarrow> nat \<Rightarrow> nat \<Rightarrow> real" where
  "corner tlayer i j k = tlayer ! (4 * i + 2 * j + k)"

definition map_coordinates :: "real list \<Rightarrow> real \<times> real \<times> real \<Rightarrow> real" where
  "map_coordinates tlayer coord =
     (case coord of (c1, c2, c3) \<Rightarrow>
        if c1 < 0 \<or> 1 < c1 \<or> c2 < 0 \<or> 1 < c2 \<or> c3 < 0 \<or> 1 < c3 then 0
        else lerp c1
               (lerp c2 (lerp c3 (corner tlayer 0 0 0) (corner tlayer 0 0 1))
                        (lerp c3 (corner tlayer 0 1 0) (corner tlayer 0 1 1)))
               (lerp c2 (lerp c3 (corner tlayer 1 0 0) (corner tlayer 1 0 1))
                        (lerp c3 (corner tlayer 1 1 0) (corner tlayer 1 1 1))))"

text \<open>\<open>(x - low) / (high - low)\<close> on Python floats.\<close>

definition fraction :: "real \<Rightarrow> real \<Rightarrow> real \<Rightarrow> error + real" where
  "fraction x low high = (if high - low = 0 then Inl ZeroDivisionError else Inr ((x - low) / (high - low)))"

text \<open>
  \<open>interpolator\<close>.  The models are the arrays that \<open>read_model\<close> gives for \<open>mnames\<close>, in
  that order; each of \<open>teff\<close>, \<open>logg\<close> and \<open>feh\<close> is the requested value with its two
  bracketing grid values.  \<open>models[cntr]\<close> is read only inside the loops, so fewer than
  eight models are an \<open>IndexError\<close> only when there is a cell to fill.
\<close>

definition interpolator ::
  "array2 list \<Rightarrow> real \<times> real \<times> real \<Rightarrow> real \<times> real \<times> real \<Rightarrow> real \<times> real \<times> real
     \<Rightarrow> error + array2" where
  "interpolator models teff logg feh =
     (case (teff, logg, feh) of
        ((teff, tefflow, teffhigh), (logg, logglow, logghigh), (feh, fehlow, fehhigh)) \<Rightarrow>
     (case fraction teff tefflow teffhigh of Inl e \<Rightarrow> Inl e | Inr c1 \<Rightarrow>
     (case fraction logg logglow logghigh of Inl e \<Rightarrow> Inl e | Inr c2 \<Rightarrow>
     (case fraction feh fehlow fehhigh of Inl e \<Rightarrow> Inl e | Inr c3 \<Rightarrow>
     (case py_min (map shape0 models) of Inl e \<Rightarrow> Inl e | Inr layers \<Rightarrow>
     (case py_min (map shape1 models) of Inl e \<Rightarrow> Inl e | Inr columns \<Rightarrow>
        if layers * columns > 0 \<and> length models < 8 then Inl IndexError
        else Inr (tabulate layers columns
                   (\<lambda>layer column.
                      map_coordinates (map (\<lambda>cntr. cell (models ! cntr) layer column) [0..<8])
                        (c1, c2, c3)))))))))"
section \<open>interpolation.py: \<open>interpolatorN7\<close>\<close>

subsection \<open>Library functions and dictionaries\<close>

text \<open>
  The builtins \<open>str\<close>, \<open>int\<close> and \<open>float\<close> (\<open>None\<close> for a \<open>ValueError\<close>) and
  \<open>np.polyfit\<close> are parameters.  So is the order in which Python 2 iterates over the
  keys of a dictionary, which the language leaves open: \<open>key_order\<close> gives it from the
  keys in the order of their insertion.
\<close>

record lib =
  str_of :: "real \<Rightarrow> string"
  int_of :: "string \<Rightarrow> int option"
  float_of :: "string \<Rightarrow> real option"
  polyfit :: "real list \<Rightarrow> real list \<Rightarrow> nat \<Rightarrow> error + real list"
  key_order :: "string list \<Rightarrow> string list"

text \<open>A dictionary from names to arrays: an association list with one entry per key.
  \<open>items\<close> is \<open>d.iteritems()\<close>.\<close>

type_synonym atmdict = "(string \<times> array2) list"

definition items :: "lib \<Rightarrow> atmdict \<Rightarrow> atmdict" where
  "items lib d =
     concat (map (\<lambda>k. case map_of d k of None \<Rightarrow> [] | Some v \<Rightarrow> [(k, v)]) (key_order lib (map fst d)))"

text \<open>\<open>np.polyval(p, x)\<close>.\<close>

definition polyval :: "real list \<Rightarrow> real \<Rightarrow> real" where
  "polyval p x = foldl (\<lambda>y pv. y * x + pv) 0 p"

text \<open>\<open>s.strip(chars)\<close>, \<open>s[-n]\<close>, \<open>s[-n:]\<close> and \<open>sub in s\<close>.\<close>

definition strip_chars :: "string \<Rightarrow> string \<Rightarrow> string" where
  "strip_chars s chars =
     rev (dropWhile (\<lambda>c. c \<in> set chars) (rev (dropWhile (\<lambda>c. c \<in> set chars) s)))"

definition from_end :: "string \<Rightarrow> nat \<Rightarrow> error + char" where
  "from_end s n = (if 0 < n \<and> n \<le> length s then Inr (s ! (length s - n)) else Inl IndexError)"

definition last_n :: "string \<Rightarrow> nat \<Rightarrow> string" where
  "last_n s n = drop (length s - n) s"

fun contains :: "string \<Rightarrow> string \<Rightarrow> bool" where
  "contains [] sub = (sub = [])"
| "contains (c # cs) sub = (prefix sub (c # cs) \<or> contains cs sub)"

text \<open>Running a loop body over a list until the first exception.\<close>

fun collect :: "('a \<Rightarrow> error + 'b) \<Rightarrow> 'a list \<Rightarrow> error + 'b list" where
  "collect f [] = Inr []"
| "collect f (x # xs) =
     (case f x of
        Inl e \<Rightarrow> Inl e
      | Inr y \<Rightarrow> (case collect f xs of Inl e \<Rightarrow> Inl e | Inr ys \<Rightarrow> Inr (y # ys)))"

subsection \<open>\<open>_interpol\<close>\<close>

datatype kind = Teff | Logg | Feh

text \<open>The value \<open>kv\<close> of the axis \<open>kind\<close> that the key of a model carries.\<close>

definition axis_value :: "lib \<Rightarrow> kind \<Rightarrow> string \<Rightarrow> error + real" where
  "axis_value lib kind k =
     (case kind of
        Teff \<Rightarrow>
          (case int_of lib (hd (split_at ''g'' [] k)) of
             None \<Rightarrow> Inl ValueError
           | Some n \<Rightarrow> Inr (of_int n))
      | Logg \<Rightarrow>
          (case float_of lib (take 2 k) of
             None \<Rightarrow> Inl ValueError
           | Some x \<Rightarrow> Inr (x / 10))
      | Feh \<Rightarrow>
          (case from_end k 3 of
             Inl e \<Rightarrow> Inl e
           | Inr c \<Rightarrow>
               (case float_of lib (last_n k 2) of
                  None \<Rightarrow> Inl ValueError
                | Some x \<Rightarrow> Inr (if c = CHR ''p'' then x / 10 else - x / 10))))"

text \<open>The inner loop over the models: the pairs of \<open>dist[i]\<close> and \<open>params[i]\<close>.\<close>

fun points :: "lib \<Rightarrow> real \<Rightarrow> kind \<Rightarrow> atmdict \<Rightarrow> nat \<Rightarrow> nat \<Rightarrow> error + (real \<times> real) list" where
  "points lib param kind [] layer col = Inr []"
| "points lib param kind ((k, v) # rest) layer col =
     (case axis_value lib kind k of
        Inl e \<Rightarrow> Inl e
      | Inr kv \<Rightarrow>
          (case points lib param kind rest layer col of
             Inl e \<Rightarrow> Inl e
           | Inr ps \<Rightarrow> Inr ((kv - param, cell v layer col) # ps)))"

text \<open>One cell: sort by distance (\<open>np.argsort\<close>), fit, evaluate at 0.  The degree is 2
  when there are more than two models and 1 otherwise.\<close>

definition degree_for :: "nat \<Rightarrow> nat" where
  "degree_for N = (if N > 2 then 2 else 1)"

definition fit_cell :: "lib \<Rightarrow> real \<Rightarrow> kind \<Rightarrow> atmdict \<Rightarrow> nat \<Rightarrow> nat \<Rightarrow> error + real" where
  "fit_cell lib param kind models layer col =
     (case points lib param kind (items lib models) layer col of
        Inl e \<Rightarrow> Inl e
      | Inr pts \<Rightarrow>
          (let sorted = sort_key fst pts
           in case polyfit lib (map fst sorted) (map snd sorted) (degree_for (length models)) of
                Inl e \<Rightarrow> Inl e
              | Inr p \<Rightarrow> Inr (polyval p 0)))"

text \<open>
  \<open>_interpol\<close>: the dictionary with the one new model.  After the loops \<open>k\<close> is the last
  key of the iteration; it is unbound (\<open>NameError\<close>) when no cell was visited or the
  dictionary is empty.
\<close>

definition interpol ::
  "lib \<Rightarrow> atmdict \<Rightarrow> real \<Rightarrow> kind \<Rightarrow> nat \<Rightarrow> nat \<Rightarrow> error + atmdict" where
  "interpol lib models param kind layers columns =
     (case collect (\<lambda>layer. collect (\<lambda>col. fit_cell lib param kind models layer col) [0..<columns])
             [0..<layers] of
        Inl e \<Rightarrow> Inl e
      | Inr rs \<Rightarrow>
          if layers * columns = 0 \<or> items lib models = [] then Inl NameError
          else
            (let k = fst (last (items lib models));
                 name = (if kind = Teff then last (split_at ''g'' [] (strip_chars k ''.gz'')) else k)
             in Inr [(name, \<lparr> ncols = columns, rows = rs \<rparr>)]))"

subsection \<open>\<open>interpolatorN7\<close>\<close>

text \<open>The dictionary \<open>models\<close>, from the base names of \<open>mnames\<close> and the arrays read.\<close>

definition build :: "(string \<times> array2) list \<Rightarrow> atmdict" where
  "build named = fold (\<lambda>(n, a) d. AList.update n a d) named []"

text \<open>The four dictionaries \<open>models_t1\<close> to \<open>models_t4\<close>: the \<open>if\<close> and \<open>elif\<close> branches in
  the loop over \<open>models.keys()\<close>.\<close>

definition group_of :: "string \<Rightarrow> string \<Rightarrow> string \<Rightarrow> string \<Rightarrow> string \<Rightarrow> nat" where
  "group_of g1 g2 f1 f2 name =
     (if contains name g1 \<and> contains name f1 then 1
      else if contains name g1 \<and> contains name f2 then 2
      else if contains name g2 \<and> contains name f1 then 3
      else if contains name g2 \<and> contains name f2 then 4
      else 0)"

definition logg_tag :: "lib \<Rightarrow> real \<Rightarrow> string" where
  "logg_tag lib x = ''g'' @ replace (str_of lib x) ''.'' []"

definition feh_tag :: "lib \<Rightarrow> real \<Rightarrow> string" where
  "feh_tag lib x = replace (replace (str_of lib x) ''.'' []) ''-'' [] @ ''.''"

definition models_t :: "lib \<Rightarrow> atmdict \<Rightarrow> real list \<Rightarrow> real list \<Rightarrow> nat \<Rightarrow> atmdict" where
  "models_t lib models lv fv n =
     filter (\<lambda>(name, a). group_of (logg_tag lib (lv ! 0)) (logg_tag lib (lv ! 1))
                                   (feh_tag lib (fv ! 0)) (feh_tag lib (fv ! 1)) name = n)
       (items lib models)"

text \<open>\<open># Interpolate over Teff first\<close>: the dictionaries \<open>t1\<close> to \<open>t4\<close>, with the numbers of
  layers and columns.\<close>

definition stage_t ::
  "lib \<Rightarrow> (string \<times> array2) list \<Rightarrow> real \<times> real list \<Rightarrow> real list \<Rightarrow> real list
     \<Rightarrow> error + (atmdict list \<times> nat \<times> nat)" where
  "stage_t lib named teff lv fv =
     (case teff of (teff, tv) \<Rightarrow>
        if length tv < 4 \<or> length lv < 2 \<or> length fv < 2 then Inl IndexError
        else
          (let models = build named
           in case py_min (map (shape0 \<circ> snd) models) of Inl e \<Rightarrow> Inl e | Inr layers \<Rightarrow>
              case py_min (map (shape1 \<circ> snd) models) of Inl e \<Rightarrow> Inl e | Inr columns \<Rightarrow>
              case collect (\<lambda>n. interpol lib (models_t lib models lv fv n) teff Teff layers columns)
                     [1, 2, 3, 4] of
                Inl e \<Rightarrow> Inl e
              | Inr ts \<Rightarrow> Inr (ts, layers, columns)))"

text \<open>\<open>d.keys()[0]\<close> with \<open>d.values()[0]\<close>; \<open>IndexError\<close> on the empty dictionary.\<close>

definition first_item :: "lib \<Rightarrow> atmdict \<Rightarrow> error + string \<times> array2" where
  "first_item lib d = (case items lib d of [] \<Rightarrow> Inl IndexError | kv # rest \<Rightarrow> Inr kv)"

text \<open>One of the three \<open>if\<close> statements that sort \<open>t2\<close>, \<open>t3\<close> and \<open>t4\<close> into \<open>L1\<close> or
  \<open>L2\<close>, by the last three characters of the key.\<close>

definition place :: "lib \<Rightarrow> atmdict \<times> atmdict \<Rightarrow> atmdict \<Rightarrow> error + atmdict \<times> atmdict" where
  "place lib LL t =
     (case LL of (L1, L2) \<Rightarrow>
      case first_item lib L1 of Inl e \<Rightarrow> Inl e | Inr (k1, v1) \<Rightarrow>
      case first_item lib t of Inl e \<Rightarrow> Inl e | Inr (k, v) \<Rightarrow>
        if last_n k1 3 = last_n k 3 then Inr (AList.update k v L1, L2)
        else Inr (L1, AList.update k v L2))"

text \<open>The second block of the source: \<open>l1\<close> and \<open>l2\<close>, joined in the dictionary \<open>M\<close>.\<close>

definition stage_l ::
  "lib \<Rightarrow> (string \<times> array2) list \<Rightarrow> real \<times> real list \<Rightarrow> real \<times> real list \<Rightarrow> real list
     \<Rightarrow> error + (atmdict \<times> nat \<times> nat)" where
  "stage_l lib named teff logg fv =
     (case logg of (logg, lv) \<Rightarrow>
      case stage_t lib named teff lv fv of
        Inl e \<Rightarrow> Inl e
      | Inr (ts, layers, columns) \<Rightarrow>
      case place lib (ts ! 0, []) (ts ! 1) of Inl e \<Rightarrow> Inl e | Inr LL2 \<Rightarrow>
      case place lib LL2 (ts ! 2) of Inl e \<Rightarrow> Inl e | Inr LL3 \<Rightarrow>
      case place lib LL3 (ts ! 3) of Inl e \<Rightarrow> Inl e | Inr LL \<Rightarrow>
      case interpol lib (fst LL) logg Logg layers columns of Inl e \<Rightarrow> Inl e | Inr l1 \<Rightarrow>
      case interpol lib (snd LL) logg Logg layers columns of Inl e \<Rightarrow> Inl e | Inr l2 \<Rightarrow>
        Inr (fold (\<lambda>(n, a) d. AList.update n a d) (items lib l2) l1, layers, columns))"

definition interpolatorN7 ::
  "lib \<Rightarrow> (string \<times> array2) list \<Rightarrow> real \<times> real list \<Rightarrow> real \<times> real list \<Rightarrow> real \<times> real list
     \<Rightarrow> error + array2" where
  "interpolatorN7 lib named teff logg feh =
     (case feh of (feh, fv) \<Rightarrow>
      case stage_l lib named teff logg fv of
        Inl e \<Rightarrow> Inl e
      | Inr (M, layers, columns) \<Rightarrow>
          (case interpol lib M feh Feh layers columns of
             Inl e \<Rightarrow> Inl e
           | Inr newatm \<Rightarrow>
               (case first_item lib newatm of Inl e \<Rightarrow> Inl e | Inr (k, v) \<Rightarrow> Inr v)))"

section \<open>Properties of \<open>interpolator\<close>\<close>

lemma py_min_Min: "py_min xs = Inr m \<Longrightarrow> xs \<noteq> [] \<and> m = Min (set xs)"
proof -
  have "fold min ys x = Min (set (x # ys))" for x :: nat and ys
    by (rule Min.set_eq_fold [symmetric])
  then show "py_min xs = Inr m \<Longrightarrow> xs \<noteq> [] \<and> m = Min (set xs)"
    by (auto simp: py_min_def simp del: set_simps split: list.splits)
qed

lemma py_min_nonempty: "xs \<noteq> [] \<Longrightarrow> py_min xs = Inr (Min (set xs))"
  using py_min_Min [of xs] by (cases xs) (auto simp: py_min_def)

lemma shape_tabulate [simp]:
  "shape0 (tabulate layers columns f) = layers" "shape1 (tabulate layers columns f) = columns"
  by (simp_all add: shape0_def shape1_def tabulate_def)

lemma rect_tabulate [simp]: "rect (tabulate layers columns f)"
  by (simp add: rect_def tabulate_def list_all_iff)

lemma cell_tabulate [simp]:
  "layer < layers \<Longrightarrow> col < columns \<Longrightarrow> cell (tabulate layers columns f) layer col = f layer col"
  by (simp add: cell_def tabulate_def)

lemma tabulate_cong:
  "(\<And>layer col. layer < layers \<Longrightarrow> col < columns \<Longrightarrow> f layer col = g layer col)
   \<Longrightarrow> tabulate layers columns f = tabulate layers columns g"
  by (simp add: tabulate_def)

lemma fraction_low: "low \<noteq> high \<Longrightarrow> fraction low low high = Inr 0"
  and fraction_high: "low \<noteq> high \<Longrightarrow> fraction high low high = Inr 1"
  by (simp_all add: fraction_def)

lemma map_coordinates_corner:
  assumes "i < 2" "j < 2" "k < 2"
  shows "map_coordinates tlayer (real i, real j, real k) = corner tlayer i j k"
proof -
  have "i = 0 \<or> i = 1" "j = 0 \<or> j = 1" "k = 0 \<or> k = 1"
    using assms by auto
  then show ?thesis
    by (auto simp: map_coordinates_def lerp_def)
qed

lemma corner_models:
  assumes "i < 2" "j < 2" "k < 2"
  shows "corner (map f [0..<8]) i j k = f (4 * i + 2 * j + k)"
proof -
  have "4 * i + 2 * j + k < 8" using assms by simp
  then show ?thesis unfolding corner_def by (simp del: upt_rec_numeral)
qed

text \<open>
  Claim C1.  With eight models (or more) and distinct bracketing values on every axis:
  when on each axis the requested value is one of the two bracketing grid values, the
  low one (\<open>i = 0\<close>, coordinate 0) or the high one (\<open>i = 1\<close>, coordinate 1), the
  interpolator returns, cell by cell, the values of the model at that corner of the cube,
  which is model number \<open>4 i + 2 j + k\<close> of the list.
\<close>

theorem interpolator_identity_at_grid_points:
  assumes "8 \<le> length models"
    and "tefflow \<noteq> teffhigh" and "logglow \<noteq> logghigh" and "fehlow \<noteq> fehhigh"
    and "i < 2" and "j < 2" and "k < 2"
  shows "\<exists>out. interpolator models
                  (if i = 0 then tefflow else teffhigh, tefflow, teffhigh)
                  (if j = 0 then logglow else logghigh, logglow, logghigh)
                  (if k = 0 then fehlow else fehhigh, fehlow, fehhigh) = Inr out
           \<and> shape0 out = Min (shape0 ` set models) \<and> shape1 out = Min (shape1 ` set models)
           \<and> (\<forall>layer < shape0 out. \<forall>col < shape1 out.
                 cell out layer col = cell (models ! (4 * i + 2 * j + k)) layer col)"
proof -
  have ne: "map shape0 models \<noteq> []" "map shape1 models \<noteq> []"
    using assms(1) by auto
  have c1: "fraction (if i = 0 then tefflow else teffhigh) tefflow teffhigh = Inr (real i)"
    using assms(2,5) by (cases "i = 0") (auto simp: fraction_low fraction_high)
  have c2: "fraction (if j = 0 then logglow else logghigh) logglow logghigh = Inr (real j)"
    using assms(3,6) by (cases "j = 0") (auto simp: fraction_low fraction_high)
  have c3: "fraction (if k = 0 then fehlow else fehhigh) fehlow fehhigh = Inr (real k)"
    using assms(4,7) by (cases "k = 0") (auto simp: fraction_low fraction_high)
  define L where "L = Min (shape0 ` set models)"
  define C where "C = Min (shape1 ` set models)"
  have m: "py_min (map shape0 models) = Inr L" "py_min (map shape1 models) = Inr C"
    using py_min_nonempty [OF ne(1)] py_min_nonempty [OF ne(2)] by (simp_all add: L_def C_def)
  have t: "map_coordinates (map (\<lambda>cntr. cell (models ! cntr) layer col) [0..<8])
             (real i, real j, real k) = cell (models ! (4 * i + 2 * j + k)) layer col" for layer col
    by (simp only: map_coordinates_corner [OF assms(5-7)] corner_models [OF assms(5-7)])
  have g: "\<not> (L * C > 0 \<and> length models < 8)"
    using assms(1) by simp
  have "interpolator models
          (if i = 0 then tefflow else teffhigh, tefflow, teffhigh)
          (if j = 0 then logglow else logghigh, logglow, logghigh)
          (if k = 0 then fehlow else fehhigh, fehlow, fehhigh)
        = Inr (tabulate L C (\<lambda>layer col. cell (models ! (4 * i + 2 * j + k)) layer col))"
    unfolding interpolator_def prod.case c1 c2 c3 m sum.case t
    using g by (simp only: if_False)
  then show ?thesis by (simp add: L_def C_def)
qed

text \<open>A cube of eight models for 5000 and 5250 K, \<open>log g\<close> 4.0 and 4.5, \<open>[Fe/H]\<close> -0.5 and
  0.0.  Model number \<open>n\<close> holds \<open>n\<close>, \<open>n + 10\<close> in its first layer and \<open>n + 20\<close>, \<open>n + 30\<close> in
  its second; the first model has a third layer and a third column.\<close>

definition cube_model :: "nat \<Rightarrow> array2" where
  "cube_model n = \<lparr> ncols = 2, rows = [[real n, real n + 10], [real n + 20, real n + 30]] \<rparr>"

definition cube :: "array2 list" where
  "cube = \<lparr> ncols = 3, rows = [[0, 10, 1], [20, 30, 1], [40, 50, 1]] \<rparr>
            # map cube_model [1, 2, 3, 4, 5, 6, 7]"

lemma cube_shapes: "Min (shape0 ` set cube) = 2" "Min (shape1 ` set cube) = 2"
  by (simp_all add: cube_def cube_model_def shape0_def shape1_def)

theorem interpolator_identity_at_grid_points_witness:
  "\<exists>out. interpolator cube (5250, 5000, 5250) (4.0, 4.0, 4.5) (0, - 0.5, 0) = Inr out
         \<and> shape0 out = 2 \<and> shape1 out = 2
         \<and> cell out 0 0 = 5 \<and> cell out 0 1 = 15 \<and> cell out 1 0 = 25 \<and> cell out 1 1 = 35"
proof -
  have "8 \<le> length cube" by (simp add: cube_def)
  from interpolator_identity_at_grid_points [OF this, of 5000 5250 "4.0" "4.5" "- 0.5" 0 1 0 1]
  obtain out where
    o: "interpolator cube (5250, 5000, 5250) (4.0, 4.0, 4.5) (0, - 0.5, 0) = Inr out"
    and s: "shape0 out = 2" "shape1 out = 2"
    and c: "\<forall>layer < shape0 out. \<forall>col < shape1 out. cell out layer col = cell (cube ! 5) layer col"
    by (auto simp: cube_shapes)
  have "cell out 0 0 = 5" "cell out 0 1 = 15" "cell out 1 0 = 25" "cell out 1 1 = 35"
    using c s by (simp_all add: cube_def cube_model_def cell_def)
  with o s show ?thesis by blast
qed

section \<open>The shape of an interpolated model\<close>

lemma shape_crop:
  "shape0 (crop layers columns a) = min layers (shape0 a)"
  "shape1 (crop layers columns a) = min columns (shape1 a)"
  by (simp_all add: shape0_def shape1_def crop_def)

lemma cell_crop:
  "layer < layers \<Longrightarrow> layers \<le> shape0 a \<Longrightarrow> col < columns
   \<Longrightarrow> cell (crop layers columns a) layer col = cell a layer col"
  by (simp add: cell_def crop_def shape0_def)

lemma Min_image_min:
  fixes f :: "'a \<Rightarrow> nat"
  assumes "finite A" and "A \<noteq> {}"
  shows "Min ((\<lambda>a. min (Min (f ` A)) (f a)) ` A) = Min (f ` A)"
proof -
  have "min (Min (f ` A)) (f a) = Min (f ` A)" if "a \<in> A" for a
    using that assms(1) by (simp add: min_def)
  then have "(\<lambda>a. min (Min (f ` A)) (f a)) ` A = {Min (f ` A)}"
    using assms(2) by auto
  then show ?thesis by simp
qed

lemma py_min_crop:
  assumes "py_min (map f xs) = Inr m"
  shows "py_min (map (\<lambda>a. min m (f a)) xs) = Inr m"
proof -
  from py_min_Min [OF assms] have ne: "xs \<noteq> []" and m: "m = Min (f ` set xs)"
    by auto
  have "py_min (map (\<lambda>a. min m (f a)) xs) = Inr (Min ((\<lambda>a. min m (f a)) ` set xs))"
    using py_min_nonempty [of "map (\<lambda>a. min m (f a)) xs"] ne by simp
  also have "Min ((\<lambda>a. min m (f a)) ` set xs) = m"
    unfolding m using ne by (intro Min_image_min) auto
  finally show ?thesis .
qed

lemma py_min_le: "py_min (map f xs) = Inr m \<Longrightarrow> x \<in> set xs \<Longrightarrow> m \<le> f x"
  by (drule py_min_Min) simp

lemma interpolator_Inr:
  assumes "interpolator models teff logg feh = Inr out"
  obtains c1 c2 c3 where
    "py_min (map shape0 models) = Inr (shape0 out)"
    "py_min (map shape1 models) = Inr (shape1 out)"
    "fraction (fst teff) (fst (snd teff)) (snd (snd teff)) = Inr c1"
    "fraction (fst logg) (fst (snd logg)) (snd (snd logg)) = Inr c2"
    "fraction (fst feh) (fst (snd feh)) (snd (snd feh)) = Inr c3"
    "\<not> (shape0 out * shape1 out > 0 \<and> length models < 8)"
    "out = tabulate (shape0 out) (shape1 out)
             (\<lambda>layer col. map_coordinates (map (\<lambda>cntr. cell (models ! cntr) layer col) [0..<8])
                             (c1, c2, c3))"
  using assms unfolding interpolator_def
  by (cases teff; cases logg; cases feh)
    (auto split: sum.splits if_splits simp del: upt_rec_numeral)

lemma interpolator_shape:
  assumes "interpolator models teff logg feh = Inr out"
  shows "shape0 out = Min (shape0 ` set models)" "shape1 out = Min (shape1 ` set models)" "rect out"
proof -
  from assms obtain c1 c2 c3 where
    a: "py_min (map shape0 models) = Inr (shape0 out)"
    and b: "py_min (map shape1 models) = Inr (shape1 out)"
    and o: "out = tabulate (shape0 out) (shape1 out)
             (\<lambda>layer col. map_coordinates (map (\<lambda>cntr. cell (models ! cntr) layer col) [0..<8])
                             (c1, c2, c3))"
    by (rule interpolator_Inr)
  show "shape0 out = Min (shape0 ` set models)" using py_min_Min [OF a] by simp
  show "shape1 out = Min (shape1 ` set models)" using py_min_Min [OF b] by simp
  show "rect out" by (subst o) simp
qed

lemma interpolator_crop:
  assumes "interpolator models teff logg feh = Inr out"
  shows "interpolator (map (crop (shape0 out) (shape1 out)) models) teff logg feh = Inr out"
proof -
  define L where "L = shape0 out"
  define C where "C = shape1 out"
  from assms obtain c1 c2 c3 where
    a: "py_min (map shape0 models) = Inr L"
    and b: "py_min (map shape1 models) = Inr C"
    and f: "fraction (fst teff) (fst (snd teff)) (snd (snd teff)) = Inr c1"
      "fraction (fst logg) (fst (snd logg)) (snd (snd logg)) = Inr c2"
      "fraction (fst feh) (fst (snd feh)) (snd (snd feh)) = Inr c3"
    and g: "\<not> (L * C > 0 \<and> length models < 8)"
    and o: "out = tabulate L C
             (\<lambda>layer col. map_coordinates (map (\<lambda>cntr. cell (models ! cntr) layer col) [0..<8])
                             (c1, c2, c3))"
    unfolding L_def C_def by (rule interpolator_Inr)
  have a': "py_min (map shape0 (map (crop L C) models)) = Inr L"
    using py_min_crop [OF a] by (simp add: o_def shape_crop)
  have b': "py_min (map shape1 (map (crop L C) models)) = Inr C"
    using py_min_crop [OF b] by (simp add: o_def shape_crop)
  have t: "tabulate L C
             (\<lambda>layer col. map_coordinates
                (map (\<lambda>cntr. cell (map (crop L C) models ! cntr) layer col) [0..<8]) (c1, c2, c3))
           = tabulate L C
             (\<lambda>layer col. map_coordinates (map (\<lambda>cntr. cell (models ! cntr) layer col) [0..<8])
                             (c1, c2, c3))"
  proof (rule tabulate_cong)
    fix layer col
    assume lc: "layer < L" "col < C"
    then have len: "8 \<le> length models" using g by (cases "L * C > 0") auto
    have "cell (map (crop L C) models ! cntr) layer col = cell (models ! cntr) layer col"
      if "cntr \<in> set [0..<8]" for cntr
    proof -
      have c: "cntr < length models" using that len by simp
      then have "L \<le> shape0 (models ! cntr)"
        using py_min_le [OF a, of "models ! cntr"] by simp
      then show ?thesis using c lc by (simp add: cell_crop)
    qed
    then have "map (\<lambda>cntr. cell (map (crop L C) models ! cntr) layer col) [0..<8]
               = map (\<lambda>cntr. cell (models ! cntr) layer col) [0..<8]"
      by (intro map_cong refl)
    then show "map_coordinates
                (map (\<lambda>cntr. cell (map (crop L C) models ! cntr) layer col) [0..<8]) (c1, c2, c3)
               = map_coordinates (map (\<lambda>cntr. cell (models ! cntr) layer col) [0..<8])
                             (c1, c2, c3)"
      by (simp only:)
  qed
  obtain x1 l1 h1 x2 l2 h2 x3 l3 h3 where
    p: "teff = (x1, l1, h1)" "logg = (x2, l2, h2)" "feh = (x3, l3, h3)"
    by (cases teff; cases logg; cases feh) auto
  have f': "fraction x1 l1 h1 = Inr c1" "fraction x2 l2 h2 = Inr c2" "fraction x3 l3 h3 = Inr c3"
    using f by (simp_all add: p)
  have g': "\<not> (L * C > 0 \<and> length (map (crop L C) models) < 8)"
    using g by simp
  have "interpolator (map (crop L C) models) teff logg feh = Inr out"
    unfolding interpolator_def p prod.case f' sum.case a' b' t o [symmetric]
    using g' by (simp only: if_False)
  then show ?thesis by (simp add: L_def C_def)
qed

section \<open>Properties of \<open>interpolatorN7\<close>\<close>

subsection \<open>Loops and dictionaries\<close>

lemma collect_length: "collect f xs = Inr ys \<Longrightarrow> length ys = length xs"
  by (induction xs arbitrary: ys) (auto split: sum.splits)

lemma collect_nth: "collect f xs = Inr ys \<Longrightarrow> i < length xs \<Longrightarrow> f (xs ! i) = Inr (ys ! i)"
proof (induction xs arbitrary: ys i)
  case Nil
  then show ?case by simp
next
  case (Cons x xs)
  then show ?case by (cases i) (auto split: sum.splits)
qed

lemma collect_cong: "(\<And>x. x \<in> set xs \<Longrightarrow> f x = g x) \<Longrightarrow> collect f xs = collect g xs"
  by (induction xs) (auto split: sum.splits)

lemma items_subset: "(k, v) \<in> set (items lib d) \<Longrightarrow> map_of d k = Some v"
  by (auto simp: items_def split: option.splits)

lemma items_member: "(k, v) \<in> set (items lib d) \<Longrightarrow> (k, v) \<in> set d"
  by (drule items_subset) (rule map_of_SomeD)

lemma map_of_apsnd: "map_of (map (apsnd g) d) k = map_option g (map_of d k)"
  by (induction d) auto

lemma items_apsnd: "items lib (map (apsnd g) d) = map (apsnd g) (items lib d)"
proof -
  have "(case map_option g (map_of d k) of None \<Rightarrow> [] | Some v \<Rightarrow> [(k, v)])
        = map (apsnd g) (case map_of d k of None \<Rightarrow> [] | Some v \<Rightarrow> [(k, v)])" for k
    by (cases "map_of d k") auto
  then show ?thesis
    by (simp add: items_def map_of_apsnd map_concat o_def)
qed

lemma update_apsnd:
  "AList.update k (g v) (map (apsnd g) d) = map (apsnd g) (AList.update k v d)"
  by (induction d) auto

lemma build_apsnd: "build (map (apsnd g) named) = map (apsnd g) (build named)"
proof -
  have "fold (\<lambda>(n, a) d. AList.update n a d) (map (apsnd g) named) (map (apsnd g) d)
        = map (apsnd g) (fold (\<lambda>(n, a) d. AList.update n a d) named d)" for d
    by (induction named arbitrary: d) (auto simp: update_apsnd)
  from this [of "[]"] show ?thesis by (simp add: build_def)
qed

lemma models_t_apsnd:
  "models_t lib (map (apsnd g) models) lv fv n = map (apsnd g) (models_t lib models lv fv n)"
  by (simp add: models_t_def items_apsnd filter_map o_def case_prod_unfold)

lemma models_t_member: "(k, v) \<in> set (models_t lib models lv fv n) \<Longrightarrow> (k, v) \<in> set models"
  by (auto simp: models_t_def dest: items_member)

subsection \<open>\<open>_interpol\<close>\<close>

lemma interpol_Inr:
  assumes "interpol lib models param kind layers columns = Inr d"
  obtains name arr where "d = [(name, arr)]" "shape0 arr = layers" "shape1 arr = columns"
    "rect arr" "layers * columns \<noteq> 0"
    "\<And>layer col. layer < layers \<Longrightarrow> col < columns
        \<Longrightarrow> fit_cell lib param kind models layer col = Inr (cell arr layer col)"
proof -
  from assms obtain rs name where
    c: "collect (\<lambda>layer. collect (\<lambda>col. fit_cell lib param kind models layer col) [0..<columns])
          [0..<layers] = Inr rs"
    and n: "layers * columns \<noteq> 0"
    and d: "d = [(name, \<lparr> ncols = columns, rows = rs \<rparr>)]"
    by (auto simp: interpol_def Let_def split: sum.splits if_splits)
  have len: "length rs = layers"
    using collect_length [OF c] by simp
  have row: "collect (\<lambda>col. fit_cell lib param kind models layer col) [0..<columns] = Inr (rs ! layer)"
    if "layer < layers" for layer
    using collect_nth [OF c, of layer] that by simp
  have rlen: "length (rs ! layer) = columns" if "layer < layers" for layer
    using collect_length [OF row [OF that]] by simp
  have cells: "fit_cell lib param kind models layer col = Inr (rs ! layer ! col)"
    if "layer < layers" "col < columns" for layer col
    using collect_nth [OF row [OF that(1)], of col] that(2) by simp
  have "rect \<lparr> ncols = columns, rows = rs \<rparr>"
    using rlen len by (auto simp: rect_def list_all_length)
  then show ?thesis
    using that [OF d] len n cells by (simp add: shape0_def shape1_def cell_def)
qed

lemma first_item_single: "first_item lib [(name, arr)] = Inr (k, v) \<Longrightarrow> k = name \<and> v = arr"
proof -
  assume "first_item lib [(name, arr)] = Inr (k, v)"
  then have "(k, v) \<in> set (items lib [(name, arr)])"
    by (auto simp: first_item_def split: list.splits)
  from items_member [OF this] show ?thesis by simp
qed

lemma points_crop:
  assumes "layer < L" and "col < C" and "\<And>k v. (k, v) \<in> set ms \<Longrightarrow> L \<le> shape0 v"
  shows "points lib param kind (map (apsnd (crop L C)) ms) layer col = points lib param kind ms layer col"
  using assms(3)
proof (induction ms)
  case Nil
  then show ?case by simp
next
  case (Cons kv ms)
  obtain k v where kv: "kv = (k, v)" by (cases kv)
  have "cell (crop L C v) layer col = cell v layer col"
    using Cons.prems [of k v] assms(1,2) by (simp add: kv cell_crop)
  moreover have "points lib param kind (map (apsnd (crop L C)) ms) layer col
                 = points lib param kind ms layer col"
    using Cons.prems by (intro Cons.IH) auto
  ultimately show ?case by (simp add: kv split: sum.splits)
qed

lemma fit_cell_crop:
  assumes "layer < L" and "col < C" and "\<And>k v. (k, v) \<in> set ms \<Longrightarrow> L \<le> shape0 v"
  shows "fit_cell lib param kind (map (apsnd (crop L C)) ms) layer col
         = fit_cell lib param kind ms layer col"
proof -
  have "points lib param kind (map (apsnd (crop L C)) (items lib ms)) layer col
        = points lib param kind (items lib ms) layer col"
    using assms(3) by (intro points_crop [OF assms(1,2)]) (auto dest: items_member)
  then show ?thesis by (simp add: fit_cell_def items_apsnd split: sum.splits)
qed

lemma interpol_crop:
  assumes "\<And>k v. (k, v) \<in> set ms \<Longrightarrow> L \<le> shape0 v"
  shows "interpol lib (map (apsnd (crop L C)) ms) param kind L C = interpol lib ms param kind L C"
proof -
  have 1: "collect (\<lambda>layer. collect (\<lambda>col. fit_cell lib param kind (map (apsnd (crop L C)) ms) layer col)
                      [0..<C]) [0..<L]
        = collect (\<lambda>layer. collect (\<lambda>col. fit_cell lib param kind ms layer col) [0..<C]) [0..<L]"
    using assms by (intro collect_cong fit_cell_crop) auto
  have 2: "(items lib (map (apsnd (crop L C)) ms) = []) = (items lib ms = [])"
    by (simp add: items_apsnd)
  have 3: "fst (last (items lib (map (apsnd (crop L C)) ms))) = fst (last (items lib ms))"
    if "items lib ms \<noteq> []"
    using that by (simp add: items_apsnd last_map)
  show ?thesis
    unfolding interpol_def 1 2 using 3
    by (auto simp: Let_def split: sum.splits)
qed

subsection \<open>The stages\<close>

lemma stage_t_Inr:
  assumes "stage_t lib named (teff, tv) lv fv = Inr (ts, L, C)"
  shows "py_min (map (shape0 \<circ> snd) (build named)) = Inr L"
    and "py_min (map (shape1 \<circ> snd) (build named)) = Inr C"
    and "collect (\<lambda>n. interpol lib (models_t lib (build named) lv fv n) teff Teff L C) [1, 2, 3, 4]
         = Inr ts"
  using assms by (auto simp: stage_t_def Let_def split: if_splits sum.splits)

lemma stage_t_crop:
  assumes "stage_t lib named (teff, tv) lv fv = Inr (ts, L, C)"
  shows "stage_t lib (map (apsnd (crop L C)) named) (teff, tv) lv fv = Inr (ts, L, C)"
proof -
  note s = stage_t_Inr [OF assms]
  have len: "\<not> (length tv < 4 \<or> length lv < 2 \<or> length fv < 2)"
    using assms by (auto simp: stage_t_def split: if_splits)
  have le: "L \<le> shape0 v" if "(k, v) \<in> set (build named)" for k v
    using py_min_le [OF s(1) that] by simp
  have a: "py_min (map (shape0 \<circ> snd) (map (apsnd (crop L C)) (build named))) = Inr L"
    using py_min_crop [OF s(1)] by (simp add: o_def shape_crop)
  have b: "py_min (map (shape1 \<circ> snd) (map (apsnd (crop L C)) (build named))) = Inr C"
    using py_min_crop [OF s(2)] by (simp add: o_def shape_crop)
  have c: "collect (\<lambda>n. interpol lib (models_t lib (map (apsnd (crop L C)) (build named)) lv fv n)
                          teff Teff L C) [1, 2, 3, 4] = Inr ts"
    unfolding models_t_apsnd s(3) [symmetric]
    by (intro collect_cong interpol_crop le) (rule models_t_member)
  show ?thesis
    unfolding stage_t_def prod.case build_apsnd Let_def a b c sum.case
    using len by (simp only: if_False)
qed

lemma stage_l_crop:
  assumes "stage_l lib named (teff, tv) logg fv = Inr (M, L, C)"
  shows "stage_l lib (map (apsnd (crop L C)) named) (teff, tv) logg fv = Inr (M, L, C)"
proof -
  obtain lg lv where logg: "logg = (lg, lv)" by (cases logg)
  from assms obtain ts where t: "stage_t lib named (teff, tv) lv fv = Inr (ts, L, C)"
    by (auto simp: stage_l_def logg split: sum.splits)
  show ?thesis
    using assms unfolding stage_l_def logg prod.case stage_t_crop [OF t] t .
qed

lemma interpolatorN7_Inr:
  assumes "interpolatorN7 lib named teff logg (feh, fv) = Inr out"
  obtains M L C name where "stage_l lib named teff logg fv = Inr (M, L, C)"
    "interpol lib M feh Feh L C = Inr [(name, out)]"
    "shape0 out = L" "shape1 out = C" "rect out"
proof -
  from assms obtain M L C newatm k where
    s: "stage_l lib named teff logg fv = Inr (M, L, C)"
    and i: "interpol lib M feh Feh L C = Inr newatm"
    and f: "first_item lib newatm = Inr (k, out)"
    by (auto simp: interpolatorN7_def split: sum.splits)
  from i obtain name arr where n: "newatm = [(name, arr)]"
    and a: "shape0 arr = L" "shape1 arr = C" "rect arr"
    by (rule interpol_Inr)
  from first_item_single [OF f [unfolded n]] have "out = arr" by simp
  with s i n a that show ?thesis by simp
qed

lemma stage_l_shape:
  assumes "stage_l lib named teff logg fv = Inr (M, L, C)"
  shows "py_min (map (shape0 \<circ> snd) (build named)) = Inr L"
    and "py_min (map (shape1 \<circ> snd) (build named)) = Inr C"
proof -
  obtain lg lv where logg: "logg = (lg, lv)" by (cases logg)
  obtain t tv where teff: "teff = (t, tv)" by (cases teff)
  from assms obtain ts where "stage_t lib named (t, tv) lv fv = Inr (ts, L, C)"
    by (auto simp: stage_l_def logg teff split: sum.splits)
  from stage_t_Inr(1,2) [OF this]
  show "py_min (map (shape0 \<circ> snd) (build named)) = Inr L"
    and "py_min (map (shape1 \<circ> snd) (build named)) = Inr C"
    by simp_all
qed

lemma interpolatorN7_shape:
  assumes "interpolatorN7 lib named teff logg feh = Inr out"
  shows "shape0 out = Min ((shape0 \<circ> snd) ` set (build named))"
    and "shape1 out = Min ((shape1 \<circ> snd) ` set (build named))"
    and "rect out"
proof -
  obtain f fv where feh: "feh = (f, fv)" by (cases feh)
  from assms [unfolded feh] obtain M L C name where
    s: "stage_l lib named teff logg fv = Inr (M, L, C)"
    and o: "shape0 out = L" "shape1 out = C" "rect out"
    by (rule interpolatorN7_Inr)
  show "shape0 out = Min ((shape0 \<circ> snd) ` set (build named))"
    using py_min_Min [OF stage_l_shape(1) [OF s]] o by simp
  show "shape1 out = Min ((shape1 \<circ> snd) ` set (build named))"
    using py_min_Min [OF stage_l_shape(2) [OF s]] o by simp
  show "rect out" by (rule o)
qed

lemma interpolatorN7_crop:
  assumes "interpolatorN7 lib named teff logg feh = Inr out"
  shows "interpolatorN7 lib (map (apsnd (crop (shape0 out) (shape1 out))) named) teff logg feh = Inr out"
proof -
  obtain f fv where feh: "feh = (f, fv)" by (cases feh)
  obtain t tv where teff: "teff = (t, tv)" by (cases teff)
  from assms [unfolded feh] obtain M L C name where
    s: "stage_l lib named teff logg fv = Inr (M, L, C)"
    and o: "shape0 out = L" "shape1 out = C"
    by (rule interpolatorN7_Inr)
  have "stage_l lib (map (apsnd (crop L C)) named) teff logg fv = stage_l lib named teff logg fv"
    using stage_l_crop [OF s [unfolded teff]] s by (simp add: teff)
  then show ?thesis
    using assms by (simp add: interpolatorN7_def feh o)
qed

text \<open>
  Claim C8.  Whenever one of the two interpolators returns a model, its number of layers
  is the least number of layers among the source models and its number of columns is the
  least number of columns among them, it is rectangular, and it is the model that the
  same call returns when every source model is first cut down to that many layers and
  columns: no cell beyond them is read.
\<close>

theorem interpolated_shape_is_minimum:
  "(interpolator models teff logg feh = Inr out \<longrightarrow>
      shape0 out = Min (shape0 ` set models) \<and> shape1 out = Min (shape1 ` set models)
      \<and> rect out
      \<and> interpolator (map (crop (shape0 out) (shape1 out)) models) teff logg feh = Inr out)
   \<and> (interpolatorN7 lib named teff7 logg7 feh7 = Inr out7 \<longrightarrow>
      shape0 out7 = Min ((shape0 \<circ> snd) ` set (build named))
      \<and> shape1 out7 = Min ((shape1 \<circ> snd) ` set (build named))
      \<and> rect out7
      \<and> interpolatorN7 lib (map (apsnd (crop (shape0 out7) (shape1 out7))) named) teff7 logg7 feh7
          = Inr out7)"
  using interpolator_shape [of models teff logg feh out]
    interpolator_crop [of models teff logg feh out]
    interpolatorN7_shape [of lib named teff7 logg7 feh7 out7]
    interpolatorN7_crop [of lib named teff7 logg7 feh7 out7]
  by blast

section \<open>A grid of sixteen models\<close>

text \<open>
  An instance of the library functions to run \<open>interpolatorN7\<close> on: \<open>str\<close> for numbers
  of at most two decimals, \<open>int\<close> and \<open>float\<close> for decimal numerals, dictionaries that
  iterate in the order of insertion, and for \<open>np.polyfit\<close> the polynomial of least squares
  of degree 1 or 2, from the normal equations by Cramer's rule.  Where the normal
  equations are singular \<open>np.polyfit\<close> warns and returns a solution of least norm; this
  instance raises there.
\<close>

definition str_float :: "real \<Rightarrow> string" where
  "str_float x = (if x < 0 then ''-'' @ str_hundredths (- x) else str_hundredths x)"

definition decimal_int :: "string \<Rightarrow> int option" where
  "decimal_int s = (if s = [] then None else map_option int (digits_of 0 s))"

definition power_sum :: "real list \<Rightarrow> real list \<Rightarrow> nat \<Rightarrow> real" where
  "power_sum xs ys k = sum_list (map (\<lambda>(x, y). x ^ k * y) (zip xs ys))"

definition det3 :: "real \<times> real \<times> real \<Rightarrow> real \<times> real \<times> real \<Rightarrow> real \<times> real \<times> real \<Rightarrow> real" where
  "det3 r1 r2 r3 =
     (case (r1, r2, r3) of ((a, b, c), (d, e, f), (g, h, i)) \<Rightarrow>
        a * (e * i - f * h) - b * (d * i - f * g) + c * (d * h - e * g))"

definition lstsq :: "real list \<Rightarrow> real list \<Rightarrow> nat \<Rightarrow> error + real list" where
  "lstsq xs ys deg =
     (let ones = map (\<lambda>x. 1) xs;
          S = power_sum xs ones; T = power_sum xs ys
      in if xs = [] \<or> length xs \<noteq> length ys then Inl TypeError
         else if deg = 1 then
           (let D = S 0 * S 2 - S 1 * S 1
            in if D = 0 then Inl ValueError
               else Inr [(S 0 * T 1 - S 1 * T 0) / D, (S 2 * T 0 - S 1 * T 1) / D])
         else if deg = 2 then
           (let D = det3 (S 4, S 3, S 2) (S 3, S 2, S 1) (S 2, S 1, S 0)
            in if D = 0 then Inl ValueError
               else Inr [det3 (T 2, S 3, S 2) (T 1, S 2, S 1) (T 0, S 1, S 0) / D,
                         det3 (S 4, T 2, S 2) (S 3, T 1, S 1) (S 2, T 0, S 0) / D,
                         det3 (S 4, S 3, T 2) (S 3, S 2, T 1) (S 2, S 1, T 0) / D])
         else Inl ValueError)"

definition demo_lib :: lib where
  "demo_lib = \<lparr> str_of = str_float, int_of = decimal_int, float_of = decimal_float,
                polyfit = lstsq, key_order = (\<lambda>ks. ks) \<rparr>"

text \<open>
  The models for 5000, 5250, 5500 and 5750 K, \<open>log g\<close> 4.0 and 4.5, \<open>[Fe/H]\<close> -0.5 and 0.0,
  each with one layer of two columns: \<open>t / 1000 + g + m\<close> and \<open>t / 500 + 2 g + 3 m\<close>.  The
  first model has a second layer and a third column.
\<close>

definition atm :: "real \<Rightarrow> real \<Rightarrow> real \<Rightarrow> array2" where
  "atm t g m = \<lparr> ncols = 2, rows = [[t / 1000 + g + m, t / 500 + 2 * g + 3 * m]] \<rparr>"

definition tall :: "real \<Rightarrow> real \<Rightarrow> real \<Rightarrow> array2" where
  "tall t g m =
     \<lparr> ncols = 3, rows = [[t / 1000 + g + m, t / 500 + 2 * g + 3 * m, 1], [2, 3, 1]] \<rparr>"

definition grid :: "(string \<times> array2) list" where
  "grid =
     [(''5000g40.m05.gz'', tall 5000 4 (- 0.5)), (''5000g40.p00.gz'', atm 5000 4 0),
      (''5000g45.m05.gz'', atm 5000 4.5 (- 0.5)), (''5000g45.p00.gz'', atm 5000 4.5 0),
      (''5250g40.m05.gz'', atm 5250 4 (- 0.5)), (''5250g40.p00.gz'', atm 5250 4 0),
      (''5250g45.m05.gz'', atm 5250 4.5 (- 0.5)), (''5250g45.p00.gz'', atm 5250 4.5 0),
      (''5500g40.m05.gz'', atm 5500 4 (- 0.5)), (''5500g40.p00.gz'', atm 5500 4 0),
      (''5500g45.m05.gz'', atm 5500 4.5 (- 0.5)), (''5500g45.p00.gz'', atm 5500 4.5 0),
      (''5750g40.m05.gz'', atm 5750 4 (- 0.5)), (''5750g40.p00.gz'', atm 5750 4 0),
      (''5750g45.m05.gz'', atm 5750 4.5 (- 0.5)), (''5750g45.p00.gz'', atm 5750 4.5 0)]"

lemma items_demo: "distinct (map fst d) \<Longrightarrow> items demo_lib d = d"
proof -
  define f where "f = (\<lambda>(d :: atmdict) k. case map_of d k of None \<Rightarrow> [] | Some v \<Rightarrow> [(k, v)])"
  assume "distinct (map fst d)"
  then have "concat (map (f d) (map fst d)) = d"
  proof (induction d)
    case Nil
    then show ?case by simp
  next
    case (Cons kv d)
    obtain k v where kv: "kv = (k, v)" by (cases kv)
    have "f (kv # d) k' = f d k'" if "k' \<in> set (map fst d)" for k'
      using Cons.prems that by (auto simp: f_def kv)
    then have A: "map (f (kv # d)) (map fst d) = map (f d) (map fst d)"
      by (intro map_cong refl)
    have B: "f (kv # d) k = [kv]"
      by (simp add: f_def kv)
    have IH: "concat (map (f d) (map fst d)) = d"
      using Cons by simp
    have "concat (map (f (kv # d)) (map fst (kv # d)))
          = f (kv # d) k @ concat (map (f (kv # d)) (map fst d))"
      by (simp only: kv list.map fst_conv concat.simps)
    also have "\<dots> = [kv] @ d"
      by (simp only: A B IH)
    finally show ?case by simp
  qed
  then show ?thesis by (simp add: items_def demo_lib_def f_def)
qed

lemma build_grid: "build grid = grid"
  by (simp add: build_def grid_def)

lemma demo_tags:
  "logg_tag demo_lib 4 = ''g40''" "logg_tag demo_lib (9 / 2) = ''g45''"
  "feh_tag demo_lib (- (1 / 2)) = ''05.''" "feh_tag demo_lib 0 = ''00.''"
  by (simp_all add: logg_tag_def feh_tag_def demo_lib_def str_float_def str_hundredths_def
      replace_def digits10.simps digit_char_def Let_def)

lemma demo_groups:
  "models_t demo_lib grid [4, 9 / 2] [- (1 / 2), 0] 1 =
     [(''5000g40.m05.gz'', tall 5000 4 (- 0.5)), (''5250g40.m05.gz'', atm 5250 4 (- 0.5)),
      (''5500g40.m05.gz'', atm 5500 4 (- 0.5)), (''5750g40.m05.gz'', atm 5750 4 (- 0.5))]"
  "models_t demo_lib grid [4, 9 / 2] [- (1 / 2), 0] 2 =
     [(''5000g40.p00.gz'', atm 5000 4 0), (''5250g40.p00.gz'', atm 5250 4 0),
      (''5500g40.p00.gz'', atm 5500 4 0), (''5750g40.p00.gz'', atm 5750 4 0)]"
  "models_t demo_lib grid [4, 9 / 2] [- (1 / 2), 0] 3 =
     [(''5000g45.m05.gz'', atm 5000 4.5 (- 0.5)), (''5250g45.m05.gz'', atm 5250 4.5 (- 0.5)),
      (''5500g45.m05.gz'', atm 5500 4.5 (- 0.5)), (''5750g45.m05.gz'', atm 5750 4.5 (- 0.5))]"
  "models_t demo_lib grid [4, 9 / 2] [- (1 / 2), 0] 4 =
     [(''5000g45.p00.gz'', atm 5000 4.5 0), (''5250g45.p00.gz'', atm 5250 4.5 0),
      (''5500g45.p00.gz'', atm 5500 4.5 0), (''5750g45.p00.gz'', atm 5750 4.5 0)]"
proof -
  have d: "distinct (map fst grid)" by (simp add: grid_def)
  show "models_t demo_lib grid [4, 9 / 2] [- (1 / 2), 0] 1 =
     [(''5000g40.m05.gz'', tall 5000 4 (- 0.5)), (''5250g40.m05.gz'', atm 5250 4 (- 0.5)),
      (''5500g40.m05.gz'', atm 5500 4 (- 0.5)), (''5750g40.m05.gz'', atm 5750 4 (- 0.5))]"
    unfolding models_t_def items_demo [OF d]
    by (simp add: demo_tags group_of_def) (simp add: grid_def)
  show "models_t demo_lib grid [4, 9 / 2] [- (1 / 2), 0] 2 =
     [(''5000g40.p00.gz'', atm 5000 4 0), (''5250g40.p00.gz'', atm 5250 4 0),
      (''5500g40.p00.gz'', atm 5500 4 0), (''5750g40.p00.gz'', atm 5750 4 0)]"
    unfolding models_t_def items_demo [OF d]
    by (simp add: demo_tags group_of_def) (simp add: grid_def)
  show "models_t demo_lib grid [4, 9 / 2] [- (1 / 2), 0] 3 =
     [(''5000g45.m05.gz'', atm 5000 4.5 (- 0.5)), (''5250g45.m05.gz'', atm 5250 4.5 (- 0.5)),
      (''5500g45.m05.gz'', atm 5500 4.5 (- 0.5)), (''5750g45.m05.gz'', atm 5750 4.5 (- 0.5))]"
    unfolding models_t_def items_demo [OF d]
    by (simp add: demo_tags group_of_def) (simp add: grid_def)
  show "models_t demo_lib grid [4, 9 / 2] [- (1 / 2), 0] 4 =
     [(''5000g45.p00.gz'', atm 5000 4.5 0), (''5250g45.p00.gz'', atm 5250 4.5 0),
      (''5500g45.p00.gz'', atm 5500 4.5 0), (''5750g45.p00.gz'', atm 5750 4.5 0)]"
    unfolding models_t_def items_demo [OF d]
    by (simp add: demo_tags group_of_def) (simp add: grid_def)
qed

lemma demo_lib_fields:
  "int_of demo_lib = decimal_int" "float_of demo_lib = decimal_float" "polyfit demo_lib = lstsq"
  by (simp_all add: demo_lib_def)

lemma items_demo4: "distinct [a, b, c, d] \<Longrightarrow>
    items demo_lib [(a, va), (b, vb), (c, vc), (d, vd)] = [(a, va), (b, vb), (c, vc), (d, vd)]"
  and items_demo2: "distinct [a, b] \<Longrightarrow> items demo_lib [(a, va), (b, vb)] = [(a, va), (b, vb)]"
  and items_demo1: "items demo_lib [(a, va)] = [(a, va)]"
  by (rule items_demo; simp)+

lemma upt_small: "[0..<1] = [0]" "[0..<2] = [0, 1]"
  by (simp_all add: upt_conv_Cons)

lemmas interpol_eval = upt_small
  interpol_def fit_cell_def degree_for_def axis_value_def demo_lib_fields decimal_int_def
  decimal_float_def unsigned_decimal_def digit_of_def lstsq_def power_sum_def det3_def polyval_def
  strip_chars_def from_end_def last_n_def cell_def atm_def tall_def Let_def

lemma stage_t_grid:
  "stage_t demo_lib grid (5300, [5000, 5250, 5500, 5750]) [4, 4.5] [- 0.5, 0]
   = Inr ([[(''40.m05'', \<lparr> ncols = 2, rows = [[8.8, 17.1]] \<rparr>)],
           [(''40.p00'', \<lparr> ncols = 2, rows = [[9.3, 18.6]] \<rparr>)],
           [(''45.m05'', \<lparr> ncols = 2, rows = [[9.3, 18.1]] \<rparr>)],
           [(''45.p00'', \<lparr> ncols = 2, rows = [[9.8, 19.6]] \<rparr>)]], 1, 2)"
proof -
  have m: "py_min (map (shape0 \<circ> snd) grid) = Inr 1" "py_min (map (shape1 \<circ> snd) grid) = Inr 2"
    by (simp_all add: py_min_def grid_def atm_def tall_def shape0_def shape1_def)
  have g: "models_t demo_lib grid [4, 9 / 2] [- (1 / 2), 0] (Suc 0)
           = models_t demo_lib grid [4, 9 / 2] [- (1 / 2), 0] 1"
    by simp
  show ?thesis
    unfolding stage_t_def build_grid
    by (simp add: m g demo_groups items_demo4 interpol_eval del: One_nat_def)
qed

lemma stage_l_grid:
  "stage_l demo_lib grid (5300, [5000, 5250, 5500, 5750]) (4.2, [4, 4.5]) [- 0.5, 0]
   = Inr ([(''45.m05'', \<lparr> ncols = 2, rows = [[9.0, 17.5]] \<rparr>),
           (''45.p00'', \<lparr> ncols = 2, rows = [[9.5, 19.0]] \<rparr>)], 1, 2)"
  unfolding stage_l_def prod.case stage_t_grid sum.case
  by (simp add: place_def first_item_def items_demo1 items_demo2 interpol_eval power2_eq_square)

lemma interpolatorN7_grid:
  "interpolatorN7 demo_lib grid (5300, [5000, 5250, 5500, 5750]) (4.2, [4, 4.5]) (- 0.2, [- 0.5, 0])
   = Inr \<lparr> ncols = 2, rows = [[9.3, 18.4]] \<rparr>"
  unfolding interpolatorN7_def prod.case stage_l_grid sum.case
  by (simp add: first_item_def items_demo1 items_demo2 interpol_eval power2_eq_square)

lemma grid_shapes:
  "Min ((shape0 \<circ> snd) ` set (build grid)) = 1" "Min ((shape1 \<circ> snd) ` set (build grid)) = 2"
  "shape0 (snd (grid ! 0)) = 2" "shape1 (snd (grid ! 0)) = 3"
proof -
  have m: "py_min (map (shape0 \<circ> snd) grid) = Inr 1" "py_min (map (shape1 \<circ> snd) grid) = Inr 2"
    by (simp_all add: py_min_def grid_def atm_def tall_def shape0_def shape1_def)
  show "Min ((shape0 \<circ> snd) ` set (build grid)) = 1"
    unfolding build_grid using py_min_Min [OF m(1)] by simp
  show "Min ((shape1 \<circ> snd) ` set (build grid)) = 2"
    unfolding build_grid using py_min_Min [OF m(2)] by simp
  show "shape0 (snd (grid ! 0)) = 2" "shape1 (snd (grid ! 0)) = 3"
    by (simp_all add: grid_def tall_def shape0_def shape1_def)
qed
lemma cube_returns:
  "\<exists>out. interpolator cube (5250, 5000, 5250) (4.0, 4.0, 4.5) (0, - 0.5, 0) = Inr out"
proof -
  have l: "(length cube < 8) = False" by (simp add: cube_def)
  have ne: "map shape0 cube \<noteq> []" "map shape1 cube \<noteq> []" by (simp_all add: cube_def)
  note m = py_min_nonempty [OF ne(1)] py_min_nonempty [OF ne(2)]
  have c: "fraction 5250 5000 5250 = Inr 1" "fraction 4.0 4.0 4.5 = Inr 0"
    "fraction 0 (- 0.5) 0 = Inr 1"
    by (simp_all add: fraction_def)
  show ?thesis
    unfolding interpolator_def prod.case c m sum.case l
    by (simp only: simp_thms if_False) blast
qed
text \<open>
  Two calls that return: the eight models of the first section, of which the first has
  three layers and three columns and the others two and two, and the sixteen models of
  the grid, of which the first has two layers and three columns and the others one and
  two.
\<close>

theorem interpolated_shape_is_minimum_witness:
  "\<exists>out out7.
     interpolator cube (5250, 5000, 5250) (4.0, 4.0, 4.5) (0, - 0.5, 0) = Inr out
     \<and> shape0 (cube ! 0) = 3 \<and> shape1 (cube ! 0) = 3 \<and> shape0 out = 2 \<and> shape1 out = 2
     \<and> interpolator (map (crop 2 2) cube) (5250, 5000, 5250) (4.0, 4.0, 4.5) (0, - 0.5, 0) = Inr out
     \<and> interpolatorN7 demo_lib grid (5300, [5000, 5250, 5500, 5750]) (4.2, [4, 4.5])
           (- 0.2, [- 0.5, 0]) = Inr out7
     \<and> shape0 (snd (grid ! 0)) = 2 \<and> shape1 (snd (grid ! 0)) = 3
     \<and> shape0 out7 = 1 \<and> shape1 out7 = 2
     \<and> interpolatorN7 demo_lib (map (apsnd (crop 1 2)) grid) (5300, [5000, 5250, 5500, 5750])
           (4.2, [4, 4.5]) (- 0.2, [- 0.5, 0]) = Inr out7"
proof -
  obtain out where
    o: "interpolator cube (5250, 5000, 5250) (4.0, 4.0, 4.5) (0, - 0.5, 0) = Inr out"
    using cube_returns by blast
  obtain out7 where
    o7: "interpolatorN7 demo_lib grid (5300, [5000, 5250, 5500, 5750]) (4.2, [4, 4.5])
           (- 0.2, [- 0.5, 0]) = Inr out7"
    using interpolatorN7_grid by blast
  note t = interpolated_shape_is_minimum
    [of cube "(5250, 5000, 5250)" "(4.0, 4.0, 4.5)" "(0, - 0.5, 0)" out
        demo_lib grid "(5300, [5000, 5250, 5500, 5750])" "(4.2, [4, 4.5])" "(- 0.2, [- 0.5, 0])" out7]
  have s: "shape0 out = 2" "shape1 out = 2"
    using t o unfolding cube_shapes by blast+
  have s7: "shape0 out7 = 1" "shape1 out7 = 2"
    using t o7 unfolding grid_shapes by blast+
  have c: "shape0 (cube ! 0) = 3" "shape1 (cube ! 0) = 3"
    by (simp_all add: cube_def shape0_def shape1_def)
  from t o o7 have
    "interpolator (map (crop (shape0 out) (shape1 out)) cube) (5250, 5000, 5250) (4.0, 4.0, 4.5)
       (0, - 0.5, 0) = Inr out"
    "interpolatorN7 demo_lib (map (apsnd (crop (shape0 out7) (shape1 out7))) grid)
       (5300, [5000, 5250, 5500, 5750]) (4.2, [4, 4.5]) (- 0.2, [- 0.5, 0]) = Inr out7"
    by blast+
  then show ?thesis
    unfolding s s7 using o o7 s s7 c grid_shapes(3,4) by blast
qed

section \<open>The order in which \<open>interpolatorN7\<close> collapses the axes\<close>
















end
